theory Spec2Isabelle
  imports Complex_Main "HOL-Library.Word"
begin

unbundle bit_operations_syntax

section \<open>Data model (types and constants of package nav)\<close>

text \<open>
  Go's \<open>int\<close> is taken as the 64-bit two's-complement integer of the usual server
  targets; \<open>float64\<close> is idealised as \<open>real\<close> (no rounding error, no NaN, no
  infinities). \<open>TransportMode\<close>, \<open>DistanceUnit\<close> and \<open>CountryCode\<close> are string
  types in the source and stay strings here, so that every value the handlers can
  build is a value of the model.
\<close>

type_synonym go_int = "64 word"
type_synonym TransportMode = string
type_synonym DistanceUnit = string
type_synonym CountryCode = string

text \<open>\<open>PathPoint\<close> is \<open>[2]int\<close> in the source: index 0 is x, index 1 is y.\<close>

type_synonym PathPoint = "int \<times> int"

definition ModeWalking :: TransportMode where "ModeWalking = ''walking''"
definition ModeBiking :: TransportMode where "ModeBiking = ''biking''"
definition ModeAuto :: TransportMode where "ModeAuto = ''auto''"
definition ModeTransit :: TransportMode where "ModeTransit = ''transit''"
definition DefaultMode :: TransportMode where "DefaultMode = ModeAuto"

definition UnitKilometers :: DistanceUnit where "UnitKilometers = ''km''"
definition UnitMiles :: DistanceUnit where "UnitMiles = ''mi''"
definition DefaultUnit :: DistanceUnit where "DefaultUnit = UnitKilometers"

definition NormalizedGridSize :: int where
  "NormalizedGridSize = 100"

definition metersPerMile :: real where
  "metersPerMile = 1609.344"

definition ModeIsValid :: "TransportMode \<Rightarrow> bool" where
  "ModeIsValid m = (m = ModeWalking \<or> m = ModeBiking \<or> m = ModeAuto \<or> m = ModeTransit)"

definition UnitIsValid :: "DistanceUnit \<Rightarrow> bool" where
  "UnitIsValid u = (u = UnitKilometers \<or> u = UnitMiles)"

definition CountryIsValid :: "CountryCode \<Rightarrow> bool" where
  "CountryIsValid c = (length c = 2)"

section \<open>Polyline decoder and normalizer (decodePolyline)\<close>

text \<open>
  The inner loop of the source reads one variable-length value:
  \<^verbatim>\<open>for byte >= 0x20 { byte = int(encoded[index]) - 63;
                       result |= (byte & 0x1f) << shift; shift += 5; index++ }\<close>
  The model walks the rest of the string instead of an index. Reading past the end
  of the string is Go's index-out-of-range panic: \<open>None\<close>.
\<close>

fun varint :: "string \<Rightarrow> nat \<Rightarrow> go_int \<Rightarrow> (go_int \<times> string) option" where
  "varint [] shift result = None"
| "varint (c # cs) shift result =
     (let byte = int (of_char c :: nat) - 63;
          result' = result OR push_bit shift (word_of_int (byte AND 0x1f))
      in if byte \<ge> 0x20 then varint cs (shift + 5) result' else Some (result', cs))"

text \<open>\<^verbatim>\<open>if (result & 1) > 0 { lat += ^(result >> 1) } else { lat += result >> 1 }\<close>\<close>

definition zigzag :: "go_int \<Rightarrow> go_int" where
  "zigzag result =
     (if 0 <s (result AND 1) then NOT (signed_drop_bit 1 result) else signed_drop_bit 1 result)"

lemma varint_shorter:
  "varint cs shift result = Some (r, rest) \<Longrightarrow> length rest < length cs"
proof (induction cs arbitrary: shift result)
  case Nil
  then show ?case by simp
next
  case (Cons c cs)
  show ?case
  proof (cases "int (of_char c :: nat) - 63 \<ge> 0x20")
    case True
    with Cons.prems have "varint cs (shift + 5)
        (result OR push_bit shift (word_of_int ((int (of_char c :: nat) - 63) AND 0x1f))) = Some (r, rest)"
      by (simp add: Let_def)
    from Cons.IH [OF this] show ?thesis by simp
  next
    case False
    with Cons.prems show ?thesis by (simp add: Let_def)
  qed
qed

text \<open>The first pass: \<^verbatim>\<open>for index < len(encoded)\<close>, a latitude then a longitude.\<close>

function decodePoints ::
  "string \<Rightarrow> go_int \<Rightarrow> go_int \<Rightarrow> (real \<times> real) list \<Rightarrow> (real \<times> real) list option" where
  "decodePoints encoded lat lng rawPoints =
     (if encoded = [] then Some rawPoints
      else case varint encoded 0 0 of
             None \<Rightarrow> None
           | Some (r1, rest1) \<Rightarrow>
               (case varint rest1 0 0 of
                  None \<Rightarrow> None
                | Some (r2, rest2) \<Rightarrow>
                    (let lat' = lat + zigzag r1; lng' = lng + zigzag r2
                     in decodePoints rest2 lat' lng'
                          (rawPoints @ [(real_of_int (sint lat') / 10 ^ 5,
                                         real_of_int (sint lng') / 10 ^ 5)]))))"
  by pat_completeness auto
termination
  by (relation "measure (\<lambda>(e, _, _, _). length e)") (auto dest!: varint_shorter)

declare decodePoints.simps [simp del]

definition min_i :: "int \<Rightarrow> int \<Rightarrow> int" where
  "min_i a b = (if a < b then a else b)"

definition max_i :: "int \<Rightarrow> int \<Rightarrow> int" where
  "max_i a b = (if a > b then a else b)"

definition abs_i :: "int \<Rightarrow> int" where
  "abs_i x = (if x < 0 then - x else x)"

text \<open>\<open>math.Round\<close>: nearest integer, halves away from zero; \<open>int(f)\<close>: towards zero.\<close>

definition math_Round :: "real \<Rightarrow> real" where
  "math_Round x = (if x < 0 then - of_int \<lfloor>- x + 1 / 2\<rfloor> else of_int \<lfloor>x + 1 / 2\<rfloor>)"

definition int_of_float :: "real \<Rightarrow> int" where
  "int_of_float x = (if x < 0 then - \<lfloor>- x\<rfloor> else \<lfloor>x\<rfloor>)"

text \<open>The bounding box: \<^verbatim>\<open>for _, p := range rawPoints[1:]\<close> over (minLat, maxLat, minLng, maxLng).\<close>

fun findBounds :: "(real \<times> real) list \<Rightarrow> real \<times> real \<times> real \<times> real \<Rightarrow> real \<times> real \<times> real \<times> real" where
  "findBounds [] b = b"
| "findBounds (p # ps) (minLat, maxLat, minLng, maxLng) =
     findBounds ps (min minLat (fst p), max maxLat (fst p), min minLng (snd p), max maxLng (snd p))"

definition manhattan :: "PathPoint \<Rightarrow> PathPoint \<Rightarrow> int" where
  "manhattan p q = abs_i (fst p - fst q) + abs_i (snd p - snd q)"

text \<open>
  \<^verbatim>\<open>for _, existing := range normalizedPoints { dist := ...; if dist <= 2 { isDuplicate = true; break } }\<close>
\<close>

fun isDuplicate :: "int \<Rightarrow> int \<Rightarrow> PathPoint list \<Rightarrow> bool" where
  "isDuplicate x y [] = False"
| "isDuplicate x y (existing # rest) =
     (if manhattan (x, y) existing \<le> 2 then True else isDuplicate x y rest)"

text \<open>The second pass: project, clamp, and keep a point that is no near-duplicate.\<close>

fun normalizePoints ::
  "real \<Rightarrow> real \<Rightarrow> real \<Rightarrow> real \<Rightarrow> (real \<times> real) list \<Rightarrow> PathPoint list \<Rightarrow> PathPoint list" where
  "normalizePoints minLat latRange minLng lngRange [] normalizedPoints = normalizedPoints"
| "normalizePoints minLat latRange minLng lngRange (p # ps) normalizedPoints =
     (let x0 = int_of_float (math_Round ((snd p - minLng) / lngRange * real_of_int NormalizedGridSize));
          y0 = int_of_float (math_Round ((fst p - minLat) / latRange * real_of_int NormalizedGridSize));
          x = max_i 0 (min_i NormalizedGridSize x0);
          y = max_i 0 (min_i NormalizedGridSize y0)
      in if isDuplicate x y normalizedPoints
         then normalizePoints minLat latRange minLng lngRange ps normalizedPoints
         else normalizePoints minLat latRange minLng lngRange ps (normalizedPoints @ [(x, y)]))"

definition decodePolyline :: "string \<Rightarrow> PathPoint list option" where
  "decodePolyline encoded =
     (if encoded = [] then Some []
      else case decodePoints encoded 0 0 [] of
             None \<Rightarrow> None
           | Some rawPoints \<Rightarrow>
               (case rawPoints of
                  [] \<Rightarrow> Some []
                | p0 # others \<Rightarrow>
                    (let (minLat, maxLat, minLng, maxLng) =
                           findBounds others (fst p0, fst p0, snd p0, snd p0);
                         latRange = (if maxLat - minLat = 0 then 1 else maxLat - minLat);
                         lngRange = (if maxLng - minLng = 0 then 1 else maxLng - minLng)
                     in Some (normalizePoints minLat latRange minLng lngRange rawPoints []))))"

section \<open>Library functions the code calls (fmt, strings)\<close>

text \<open>
  Modelled from the Go standard library, which is no part of the repository:
  \<open>%d\<close> and \<open>%.Nf\<close> of \<open>fmt.Sprintf\<close>, and the functions of package
  \<open>strings\<close> the code uses, on ASCII bytes. \<open>%.Nf\<close> rounds the exact value to
  \<open>N\<close> decimals, a tie to the even digit.
\<close>

definition digitChar :: "nat \<Rightarrow> char" where
  "digitChar d =
     (if d = 0 then CHR ''0'' else if d = 1 then CHR ''1'' else if d = 2 then CHR ''2''
      else if d = 3 then CHR ''3'' else if d = 4 then CHR ''4'' else if d = 5 then CHR ''5''
      else if d = 6 then CHR ''6'' else if d = 7 then CHR ''7'' else if d = 8 then CHR ''8''
      else CHR ''9'')"

fun showNat :: "nat \<Rightarrow> string" where
  "showNat n = (if n < 10 then [digitChar n] else showNat (n div 10) @ [digitChar (n mod 10)])"

declare showNat.simps [simp del]

definition showInt :: "int \<Rightarrow> string" where
  "showInt i = (if i < 0 then CHR ''-'' # showNat (nat (- i)) else showNat (nat i))"

definition roundHalfEven :: "real \<Rightarrow> int" where
  "roundHalfEven x =
     (let f = \<lfloor>x\<rfloor>; d = x - of_int f
      in if d < 1 / 2 then f else if 1 / 2 < d then f + 1 else if even f then f else f + 1)"

fun padDigits :: "nat \<Rightarrow> nat \<Rightarrow> string" where
  "padDigits 0 n = []"
| "padDigits (Suc p) n = padDigits p (n div 10) @ [digitChar (n mod 10)]"

definition sprintf_f :: "nat \<Rightarrow> real \<Rightarrow> string" where
  "sprintf_f prec x =
     (let n = nat (roundHalfEven (\<bar>x\<bar> * 10 ^ prec))
      in (if x < 0 then ''-'' else []) @ showNat (n div 10 ^ prec) @
         (if prec = 0 then [] else ''.'' @ padDigits prec (n mod 10 ^ prec)))"

definition newline :: char where
  "newline = CHR 0x0A"

definition toLowerChar :: "char \<Rightarrow> char" where
  "toLowerChar c =
     (let n = (of_char c :: nat) in if 65 \<le> n \<and> n \<le> 90 then char_of (n + 32) else c)"

definition toUpperChar :: "char \<Rightarrow> char" where
  "toUpperChar c =
     (let n = (of_char c :: nat) in if 97 \<le> n \<and> n \<le> 122 then char_of (n - 32) else c)"

definition ToLower :: "string \<Rightarrow> string" where
  "ToLower s = map toLowerChar s"

definition ToUpper :: "string \<Rightarrow> string" where
  "ToUpper s = map toUpperChar s"

definition isSpace :: "char \<Rightarrow> bool" where
  "isSpace c = (c = CHR '' '' \<or> c = CHR 0x09 \<or> c = CHR 0x0A \<or> c = CHR 0x0B \<or> c = CHR 0x0C
                \<or> c = CHR 0x0D)"

definition TrimSpace :: "string \<Rightarrow> string" where
  "TrimSpace s = rev (dropWhile isSpace (rev (dropWhile isSpace s)))"

text \<open>\<open>strings.TrimRight(s, "\r")\<close>: the only cutset the code uses.\<close>

definition TrimRightCR :: "string \<Rightarrow> string" where
  "TrimRightCR s = rev (dropWhile (\<lambda>c. c = CHR 0x0D) (rev s))"

text \<open>\<open>strings.Split(s, sep)\<close> for a one-byte separator: the empty string gives one empty part.\<close>

fun Split :: "string \<Rightarrow> char \<Rightarrow> string list" where
  "Split [] sep = [[]]"
| "Split (c # cs) sep =
     (if c = sep then [] # Split cs sep
      else (case Split cs sep of [] \<Rightarrow> [[c]] | part # parts \<Rightarrow> (c # part) # parts))"

fun hasPrefix :: "string \<Rightarrow> string \<Rightarrow> bool" where
  "hasPrefix s [] = True"
| "hasPrefix [] (p # ps) = False"
| "hasPrefix (c # cs) (p # ps) = (c = p \<and> hasPrefix cs ps)"

fun Contains :: "string \<Rightarrow> string \<Rightarrow> bool" where
  "Contains [] sub = (sub = [])"
| "Contains (c # cs) sub = (hasPrefix (c # cs) sub \<or> Contains cs sub)"

definition TrimSuffix :: "string \<Rightarrow> string \<Rightarrow> string" where
  "TrimSuffix s suffix =
     (if hasPrefix (rev s) (rev suffix) then take (length s - length suffix) s else s)"

text \<open>\<open>strings.ReplaceAll\<close> for a non-empty \<open>old\<close>: leftmost matches, not overlapping.\<close>

function ReplaceAll :: "string \<Rightarrow> string \<Rightarrow> string \<Rightarrow> string" where
  "ReplaceAll [] old new = []"
| "ReplaceAll (c # cs) old new =
     (if old \<noteq> [] \<and> hasPrefix (c # cs) old
      then new @ ReplaceAll (drop (length old) (c # cs)) old new
      else c # ReplaceAll cs old new)"
  by pat_completeness auto
termination
  by (relation "measure (\<lambda>(s, _, _). length s)") (auto simp: neq_Nil_conv)

section \<open>Units and the step classifier\<close>

definition getTransportMode :: "TransportMode \<Rightarrow> string" where
  "getTransportMode mode =
     (if mode = ModeWalking then ''pedestrian''
      else if mode = ModeBiking then ''bicycle''
      else if mode = ModeTransit then ''transit''
      else ''auto'')"

definition getValhallaUnits :: "DistanceUnit \<Rightarrow> string" where
  "getValhallaUnits units = (if units = UnitMiles then ''miles'' else ''kilometers'')"

definition convertDistance :: "real \<Rightarrow> DistanceUnit \<Rightarrow> real" where
  "convertDistance meters units =
     (if units = UnitMiles then meters / metersPerMile else meters / 1000)"

definition formatUSDistance :: "real \<Rightarrow> string" where
  "formatUSDistance meters =
     (let feet = meters * 3.28084
      in if feet < 1000 then sprintf_f 0 feet @ '' feet''
         else let miles = feet / 5280
              in if miles < 0.1 then sprintf_f 0 feet @ '' feet''
                 else sprintf_f 1 miles @ '' miles'')"

definition abbreviations :: "(string \<times> string) list" where
  "abbreviations =
     [('' onto '', '' on ''), ('' Avenue'', '' Ave''), ('' Street'', '' St''), ('' Road'', '' Rd''),
      ('' Boulevard'', '' Blvd''), ('' Drive'', '' Dr''), ('' Court'', '' Ct''),
      ('' Circle'', '' Cir''), ('' Highway'', '' Hwy''), ('' Parkway'', '' Pkwy''),
      ('' Place'', '' Pl''), ('' Square'', '' Sq''), ('' Terrace'', '' Ter''), ('' Trail'', '' Trl''),
      ('' Turnpike'', '' Tpke''), ('' Lane'', '' Ln''), ('' North '', '' N ''), ('' South '', '' S ''),
      ('' East '', '' E ''), ('' West '', '' W ''), ('' Northeast '', '' NE ''),
      ('' Northwest '', '' NW ''), ('' Southeast '', '' SE ''), ('' Southwest '', '' SW '')]"

text \<open>The chain of \<open>strings.ReplaceAll\<close> calls, in the order of the source.\<close>

definition abbreviateInstruction :: "string \<Rightarrow> string" where
  "abbreviateInstruction instruction =
     (if Contains instruction ''You have arrived at your destination''
      then ''Arrive at destination''
      else fold (\<lambda>(old, new) s. ReplaceAll s old new) abbreviations
             (TrimSuffix instruction ''.''))"

definition getStepIcon :: "int \<Rightarrow> string \<Rightarrow> string \<Rightarrow> string" where
  "getStepIcon maneuverType instruction mode =
     (let m = ToUpper mode
      in if m = ''BUS'' then ''Bus''
         else if m \<in> set [''RAIL'', ''SUBWAY'', ''TRAM'', ''TRAIN''] then ''Train''
         else if m \<in> set [''FERRY'', ''BOAT''] then ''Ferry''
         else if m = ''WALK'' then ''Walk''
         else if maneuverType \<in> set [2, 10, 11, 12, 1] then ''Right''
         else if maneuverType \<in> set [3, 13, 14, 15, 19] then ''Left''
         else if maneuverType \<in> set [9, 23] then ''right''
         else if maneuverType \<in> set [16, 24] then ''left''
         else if maneuverType \<in> set [7, 8, 17, 22] then ''Straight''
         else if maneuverType \<in> set [25, 26, 37, 38] then ''Merge''
         else if maneuverType \<in> set [20, 21, 27] then ''Exit''
         else if maneuverType \<in> set [28, 29] then ''Ferry''
         else if maneuverType \<in> set [42, 43] then ''building''
         else [])"

section \<open>Wire formatting (formatDuration, formatDistance)\<close>

definition formatDuration :: "real \<Rightarrow> string" where
  "formatDuration seconds =
     (let hours = int_of_float (seconds / 3600);
          minutes = int_of_float ((seconds - real_of_int (hours * 3600)) / 60)
      in if hours > 0
         then (if minutes > 0 then showInt hours @ ''hr '' @ showInt minutes @ ''min''
               else showInt hours @ ''hr'')
         else showInt minutes @ ''min'')"

definition formatDistance :: "real \<Rightarrow> DistanceUnit \<Rightarrow> string" where
  "formatDistance distance units =
     (if units = UnitMiles
      then (if distance < 0.1 then sprintf_f 0 (distance * 5280) @ ''ft''
            else sprintf_f 1 distance @ ''mi'')
      else if distance < 1.0 then sprintf_f 0 (distance * 1000) @ ''m''
      else sprintf_f 1 distance @ ''km'')"

section \<open>Request, response and backend types\<close>

text \<open>
  Record fields carry a prefix, since several Go structs share field names:
  \<open>rq_\<close> RouteRequest, \<open>rs_\<close> RouteResponse, \<open>st_\<close> RouteStep, \<open>p_\<close> Path,
  \<open>l_\<close> Location, \<open>vq_\<close> valhallaRequest, \<open>m_\<close> valhallaManeuver, \<open>vl_\<close> valhallaLeg,
  \<open>tl_\<close> a leg and \<open>it_\<close> an itinerary of transitlandResponse. Fields of the backend
  structs that no function reads (stop ids, route ids, walk steps) are left out.
\<close>

record NavConfig =
  NominatimURL :: string
  ValhallaURL :: string
  TransitlandURL :: string
  TransitlandAPIKey :: string

record RouteRequest =
  rq_FromLat :: real
  rq_FromLng :: real
  rq_ToLat :: real
  rq_ToLng :: real
  rq_FromDesc :: string
  rq_ToDesc :: string
  rq_Mode :: TransportMode
  rq_Units :: DistanceUnit
  rq_Country :: CountryCode

record RouteStep =
  st_Number :: int
  st_Description :: string
  st_Distance :: real
  st_Icon :: string

record Path =
  p_Points :: "PathPoint list"
  p_Length :: int
  p_Width :: int
  p_Height :: int

record Location =
  l_Desc :: string
  l_Lat :: real
  l_Lng :: real

record RouteResponse =
  rs_Duration :: real
  rs_Distance :: real
  rs_Units :: DistanceUnit
  rs_Steps :: "RouteStep list"
  rs_Path :: Path
  rs_Mode :: TransportMode
  rs_From :: Location
  rs_To :: Location

record valhallaLocation =
  vloc_Lat :: real
  vloc_Lon :: real
  vloc_Type :: string

datatype optionValue = OptBool bool | OptNum real

record valhallaRequest =
  vq_Locations :: "valhallaLocation list"
  vq_Costing :: string
  vq_Units :: string
  vq_CostingOptions :: "(string \<times> (string \<times> optionValue) list) list"
  vq_DateTime :: "(int \<times> string) option"

record valhallaManeuver =
  m_Type :: int
  m_Instruction :: string
  m_Distance :: real

record valhallaLeg =
  vl_Maneuvers :: "valhallaManeuver list"
  vl_Shape :: string

record valhallaResponse =
  Trip_Legs :: "valhallaLeg list"
  Trip_Summary_Time :: real
  Trip_Summary_Distance :: real

record transitlandLeg =
  tl_Mode :: string
  tl_Distance :: real
  tl_Duration :: real
  tl_From_Name :: string
  tl_To_Name :: string
  tl_RouteShortName :: string
  tl_RouteLongName :: string
  tl_AgencyName :: string
  tl_LegGeometry_Points :: string
  tl_IntermediateStops :: "string list"

record transitlandItinerary =
  it_Duration :: real
  it_WalkTime :: real
  it_TransitTime :: real
  it_WalkDistance :: real
  it_Legs :: "transitlandLeg list"

record transitlandQuery =
  tq_api_key :: string
  tq_fromPlace :: string
  tq_toPlace :: string
  tq_date :: string
  tq_time :: string

text \<open>
  What one call of \<open>http.Post\<close> to the direct-routing backend can come to, as
  \<open>route\<close> tells the cases apart: the call fails; a status other than 200 whose body
  cannot be read, parses as the structured error (status, error_code, error), or does
  not parse; status 200 whose body does not decode, or decodes to a trip.
\<close>

datatype valhallaReply =
    PostFailed string
  | ErrorBodyUnreadable nat string
  | ErrorStructured nat int string
  | ErrorRaw nat string
  | TripUndecodable string
  | TripOK valhallaResponse

text \<open>The same for \<open>http.Get\<close> to the itinerary backend.\<close>

datatype transitlandReply =
    GetFailed string
  | PlanBodyUnreadable string
  | PlanStatus nat string
  | PlanUndecodable string
  | PlanOK "transitlandItinerary list"

text \<open>
  The surroundings of a request: the configuration (the package variable
  \<open>navConfig\<close>), the two backends, the clock, and \<open>strconv.ParseFloat\<close> (the
  error's text, or the value). The direct-routing backend answers the \<open>n\<close>-th
  call made for the request, so a retry may be answered otherwise than the first
  attempt. \<open>clock layout\<close> is \<open>time.Now().Format(layout)\<close>.
\<close>

record env =
  navConfig :: NavConfig
  valhalla :: "nat \<Rightarrow> valhallaRequest \<Rightarrow> valhallaReply"
  transitland :: "transitlandQuery \<Rightarrow> transitlandReply"
  clock :: "string \<Rightarrow> string"
  ParseFloat :: "string \<Rightarrow> string + real"

text \<open>The calls made so far, in order: the only state a request leaves behind.\<close>

record world =
  valhallaLog :: "valhallaRequest list"
  transitlandLog :: "transitlandQuery list"

text \<open>An error value of Go is its message; a runtime panic is no value at all.\<close>

datatype failure = Panicked | Err string

section \<open>The itinerary adapter (routeTransitUS)\<close>

definition legDescription :: "RouteRequest \<Rightarrow> transitlandLeg \<Rightarrow> string" where
  "legDescription req leg =
     (if tl_Mode leg = ''WALK''
      then (if rq_Country req = ''us'' then ''Walk '' @ formatUSDistance (tl_Distance leg)
            else ''Walk '' @ sprintf_f 0 (tl_Distance leg) @ '' meters'') @
           (if tl_To_Name leg \<noteq> [] then '' to '' @ tl_To_Name leg else [])
      else if tl_Mode leg \<in> set [''BUS'', ''RAIL'', ''SUBWAY'', ''TRAM'', ''FERRY'']
      then ''Take'' @
           (if tl_RouteShortName leg \<noteq> [] then '' the '' @ tl_RouteShortName leg else []) @
           (if tl_RouteLongName leg \<noteq> [] then '' '' @ tl_RouteLongName leg else []) @
           (if tl_AgencyName leg \<noteq> [] then '' operated by '' @ tl_AgencyName leg else []) @
           (if tl_From_Name leg \<noteq> [] \<and> tl_To_Name leg \<noteq> []
            then '' from '' @ tl_From_Name leg @ '' to '' @ tl_To_Name leg else []) @
           (if length (tl_IntermediateStops leg) > 0
            then '' ('' @ showNat (length (tl_IntermediateStops leg)) @ '' stops)'' else [])
      else if rq_Country req = ''us''
      then tl_Mode leg @ '' for '' @ formatUSDistance (tl_Distance leg)
      else tl_Mode leg @ '' for '' @ sprintf_f 0 (tl_Distance leg) @ '' meters'')"

definition legIcon :: "transitlandLeg \<Rightarrow> string" where
  "legIcon leg =
     (if tl_Mode leg = ''WALK'' then ''Walk''
      else if tl_Mode leg \<in> set [''BUS'', ''RAIL'', ''SUBWAY'', ''TRAM'', ''FERRY'']
      then getStepIcon 0 [] (tl_Mode leg)
      else ''Straight'')"

text \<open>
  \<^verbatim>\<open>for i, leg := range itinerary.Legs\<close>: a step for the leg, then the points of
  its geometry after those of the legs before. A panic of the decoder ends the loop.
\<close>

fun processLegs ::
  "RouteRequest \<Rightarrow> nat \<Rightarrow> transitlandLeg list \<Rightarrow> RouteStep list \<Rightarrow> PathPoint list \<Rightarrow>
     (RouteStep list \<times> PathPoint list) option" where
  "processLegs req i [] steps allPoints = Some (steps, allPoints)"
| "processLegs req i (leg # legs) steps allPoints =
     (let step = \<lparr>st_Number = int i + 1,
                  st_Description = legDescription req leg,
                  st_Distance = convertDistance (tl_Distance leg) (rq_Units req),
                  st_Icon = legIcon leg\<rparr>
      in if tl_LegGeometry_Points leg \<noteq> []
         then (case decodePolyline (tl_LegGeometry_Points leg) of
                 None \<Rightarrow> None
               | Some points \<Rightarrow> processLegs req (i + 1) legs (steps @ [step]) (allPoints @ points))
         else processLegs req (i + 1) legs (steps @ [step]) allPoints)"

text \<open>The part of \<open>routeTransitUS\<close> after \<^verbatim>\<open>itinerary := tResp.Plan.Itineraries[0]\<close>.\<close>

definition itineraryResult :: "RouteRequest \<Rightarrow> transitlandItinerary \<Rightarrow> failure + RouteResponse" where
  "itineraryResult req itinerary =
     (case processLegs req 0 (it_Legs itinerary) [] [] of
        None \<Rightarrow> Inl Panicked
      | Some (steps, allPoints) \<Rightarrow>
          Inr \<lparr>rs_Duration = it_Duration itinerary,
               rs_Distance = convertDistance (it_WalkDistance itinerary) (rq_Units req),
               rs_Units = rq_Units req,
               rs_Steps = steps,
               rs_Path = \<lparr>p_Points = allPoints, p_Length = int (length allPoints),
                           p_Width = NormalizedGridSize, p_Height = NormalizedGridSize\<rparr>,
               rs_Mode = rq_Mode req,
               rs_From = \<lparr>l_Desc = rq_FromDesc req, l_Lat = rq_FromLat req, l_Lng = rq_FromLng req\<rparr>,
               rs_To = \<lparr>l_Desc = rq_ToDesc req, l_Lat = rq_ToLat req, l_Lng = rq_ToLng req\<rparr>\<rparr>)"

definition transitlandQueryOf :: "env \<Rightarrow> RouteRequest \<Rightarrow> transitlandQuery" where
  "transitlandQueryOf e req =
     \<lparr>tq_api_key = TransitlandAPIKey (navConfig e),
      tq_fromPlace = sprintf_f 6 (rq_FromLat req) @ '','' @ sprintf_f 6 (rq_FromLng req),
      tq_toPlace = sprintf_f 6 (rq_ToLat req) @ '','' @ sprintf_f 6 (rq_ToLng req),
      tq_date = clock e ''2006-01-02'',
      tq_time = clock e ''15:04''\<rparr>"

definition routeTransitUS :: "env \<Rightarrow> RouteRequest \<Rightarrow> world \<Rightarrow> (failure + RouteResponse) \<times> world" where
  "routeTransitUS e req w =
     (if TransitlandURL (navConfig e) = [] \<or> TransitlandAPIKey (navConfig e) = []
      then (Inl (Err ''transitland configuration not complete''), w)
      else let q = transitlandQueryOf e req;
               w' = w\<lparr>transitlandLog := transitlandLog w @ [q]\<rparr>
           in case transitland e q of
                GetFailed err \<Rightarrow> (Inl (Err (''error making request to transitland: '' @ err)), w')
              | PlanBodyUnreadable err \<Rightarrow> (Inl (Err (''error reading response body: '' @ err)), w')
              | PlanStatus status body \<Rightarrow>
                  (Inl (Err (''transitland API returned status '' @ showNat status @ '': '' @ body)), w')
              | PlanUndecodable err \<Rightarrow> (Inl (Err (''error decoding response: '' @ err)), w')
              | PlanOK itineraries \<Rightarrow>
                  (case itineraries of
                     [] \<Rightarrow> (Inl (Err ''no route found''), w')
                   | itinerary # _ \<Rightarrow> (itineraryResult req itinerary, w')))"

section \<open>The direct-routing adapter and the fallback (route)\<close>

text \<open>\<^verbatim>\<open>for i, maneuver := range vResp.Trip.Legs[0].Maneuvers\<close>, appending to the steps.\<close>

fun processManeuvers ::
  "RouteRequest \<Rightarrow> nat \<Rightarrow> valhallaManeuver list \<Rightarrow> RouteStep list \<Rightarrow> RouteStep list" where
  "processManeuvers req i [] steps = steps"
| "processManeuvers req i (maneuver # rest) steps =
     (let step = \<lparr>st_Number = int i + 1,
                  st_Description = abbreviateInstruction (m_Instruction maneuver),
                  st_Distance = convertDistance (m_Distance maneuver * 1000) (rq_Units req),
                  st_Icon = getStepIcon (m_Type maneuver) (m_Instruction maneuver) []\<rparr>;
          step' = (if i = 0
                   then (if rq_Mode req = ModeBiking then step\<lparr>st_Icon := ''Cycle''\<rparr>
                         else if rq_Mode req = ModeWalking then step\<lparr>st_Icon := ''Walk''\<rparr>
                         else if rq_Mode req = ModeAuto then step\<lparr>st_Icon := ''Drive''\<rparr>
                         else step)
                   else step)
      in processManeuvers req (i + 1) rest (steps @ [step']))"

text \<open>
  The part of \<open>route\<close> after the response has been decoded. With no leg, the steps
  stay empty and the path is the zero value of \<open>Path\<close>.
\<close>

definition directResult :: "RouteRequest \<Rightarrow> valhallaResponse \<Rightarrow> failure + RouteResponse" where
  "directResult req vResp =
     (let result = \<lparr>rs_Duration = Trip_Summary_Time vResp,
                    rs_Distance = convertDistance (Trip_Summary_Distance vResp * 1000) (rq_Units req),
                    rs_Units = rq_Units req,
                    rs_Steps = [],
                    rs_Path = \<lparr>p_Points = [], p_Length = 0, p_Width = 0, p_Height = 0\<rparr>,
                    rs_Mode = rq_Mode req,
                    rs_From = \<lparr>l_Desc = rq_FromDesc req, l_Lat = rq_FromLat req, l_Lng = rq_FromLng req\<rparr>,
                    rs_To = \<lparr>l_Desc = rq_ToDesc req, l_Lat = rq_ToLat req, l_Lng = rq_ToLng req\<rparr>\<rparr>
      in case Trip_Legs vResp of
           [] \<Rightarrow> Inr result
         | leg0 # _ \<Rightarrow>
             (case decodePolyline (vl_Shape leg0) of
                None \<Rightarrow> Inl Panicked
              | Some points \<Rightarrow>
                  Inr (result\<lparr>rs_Steps := processManeuvers req 0 (vl_Maneuvers leg0) [],
                              rs_Path := \<lparr>p_Points = points, p_Length = int (length points),
                                           p_Width = NormalizedGridSize,
                                           p_Height = NormalizedGridSize\<rparr>\<rparr>)))"

definition displayNameOptions :: "(string \<times> (string \<times> optionValue) list) list" where
  "displayNameOptions =
     [(''auto'', [(''use_display_name'', OptBool False)]),
      (''pedestrian'', [(''use_display_name'', OptBool False)]),
      (''bicycle'', [(''use_display_name'', OptBool False)])]"

definition transitOptions :: "(string \<times> (string \<times> optionValue) list) list" where
  "transitOptions =
     [(''transit'', [(''use_bus'', OptNum 1), (''use_rail'', OptNum 1), (''use_transfers'', OptNum 1),
                     (''transit_start_end_max_distance'', OptNum 2000),
                     (''transit_transfer_max_distance'', OptNum 500)])]"

text \<open>The request \<open>route\<close> builds, from a request whose units have been validated.\<close>

definition valhallaRequestOf :: "env \<Rightarrow> RouteRequest \<Rightarrow> valhallaRequest" where
  "valhallaRequestOf e req =
     (let vReq = \<lparr>vq_Locations =
                    [\<lparr>vloc_Lat = rq_FromLat req, vloc_Lon = rq_FromLng req, vloc_Type = ''break''\<rparr>,
                     \<lparr>vloc_Lat = rq_ToLat req, vloc_Lon = rq_ToLng req, vloc_Type = ''break''\<rparr>],
                  vq_Costing = getTransportMode (rq_Mode req),
                  vq_Units = getValhallaUnits (rq_Units req),
                  vq_CostingOptions = displayNameOptions,
                  vq_DateTime = None\<rparr>
      in if rq_Mode req = ModeTransit
         then vReq\<lparr>vq_DateTime := Some (1, clock e ''2006-01-02T15:04''),
                   vq_CostingOptions := transitOptions,
                   vq_Costing := ''transit''\<rparr>
         else vReq)"

text \<open>\<^verbatim>\<open>if req.Units == "" { req.Units = DefaultUnit }\<close>\<close>

definition withDefaultUnits :: "RouteRequest \<Rightarrow> RouteRequest" where
  "withDefaultUnits req = (if rq_Units req = [] then req\<lparr>rq_Units := DefaultUnit\<rparr> else req)"

definition notConnectedMessage :: string where
  "notConnectedMessage = ''no route found: locations are not connected in the transportation network''"

lemma ModeAuto_neq_ModeTransit: "ModeAuto \<noteq> ModeTransit"
  by (simp add: ModeAuto_def ModeTransit_def)

function route :: "env \<Rightarrow> RouteRequest \<Rightarrow> world \<Rightarrow> (failure + RouteResponse) \<times> world" where
  "route e req0 w =
     (if rq_Mode req0 = ModeTransit \<and> rq_Country req0 = ''us'' \<and> TransitlandURL (navConfig e) \<noteq> []
      then routeTransitUS e req0 w
      else if rq_Units req0 \<noteq> [] \<and> \<not> UnitIsValid (rq_Units req0)
      then (Inl (Err (''invalid units: must be one of: '' @ UnitKilometers @ '', '' @ UnitMiles)), w)
      else
        let req = withDefaultUnits req0;
            vReq = valhallaRequestOf e req;
            w' = w\<lparr>valhallaLog := valhallaLog w @ [vReq]\<rparr>
        in case valhalla e (length (valhallaLog w)) vReq of
             PostFailed err \<Rightarrow> (Inl (Err (''error making request to Valhalla: '' @ err)), w')
           | ErrorBodyUnreadable status err \<Rightarrow>
               (Inl (Err (''valhalla API returned status '' @ showNat status @
                          '', failed to read error message: '' @ err)), w')
           | ErrorStructured status errorCode error \<Rightarrow>
               (if errorCode = 170
                then (if rq_Mode req = ModeTransit
                      then route e (req\<lparr>rq_Mode := ModeAuto\<rparr>) w'
                      else (Inl (Err notConnectedMessage), w'))
                else (Inl (Err (''routing error: '' @ error)), w'))
           | ErrorRaw status body \<Rightarrow>
               (Inl (Err (''valhalla API returned status '' @ showNat status @ '': '' @ body)), w')
           | TripUndecodable err \<Rightarrow> (Inl (Err (''error decoding response: '' @ err)), w')
           | TripOK vResp \<Rightarrow> (directResult req vResp, w'))"
  by pat_completeness auto
termination
  by (relation "measure (\<lambda>(e, req, w). if rq_Mode req = ModeTransit then 1 else 0)")
     (auto simp: ModeAuto_neq_ModeTransit withDefaultUnits_def split: if_splits)

declare route.simps [simp del]

section \<open>The handler and the wire encoder (HandleRoute)\<close>

text \<open>
  A request as the handler reads it: the verb, \<open>r.URL.Query().Get\<close>, and the body
  (\<open>None\<close> when \<open>io.ReadAll\<close> fails). A response: the status (200 unless
  \<open>WriteHeader\<close> is called), the content type and what was written; the JSON
  encoding of a value is kept as the value.
\<close>

record httpRequest =
  Method :: string
  QueryGet :: "string \<Rightarrow> string"
  Body :: "string option"

datatype payload = JSONError string | JSONRoute RouteResponse | PlainText string

record httpResponse =
  StatusCode :: nat
  ContentType :: string
  Payload :: payload

text \<open>
  \<^verbatim>\<open>for i, step := range result.Steps\<close> of \<open>writePlainTextRoute\<close>; \<open>out\<close> is
  what has been written so far.
\<close>

fun writeSteps :: "RouteResponse \<Rightarrow> nat \<Rightarrow> RouteStep list \<Rightarrow> string \<Rightarrow> string" where
  "writeSteps result i [] out = out"
| "writeSteps result i (step # rest) out =
     (let out1 = out @ st_Icon step @ [newline];
          out2 = (if rs_Mode result \<noteq> ModeTransit \<and> int i < int (length (rs_Steps result)) - 1
                  then out1 @ st_Description step @ '' ('' @
                       formatDistance (st_Distance step) (rs_Units result) @ '')'' @ [newline]
                  else out1 @ st_Description step @ [newline])
      in writeSteps result (i + 1) rest out2)"

definition writePlainTextRoute :: "RouteResponse \<Rightarrow> httpResponse" where
  "writePlainTextRoute result =
     \<lparr>StatusCode = 200, ContentType = ''text/plain'',
      Payload = PlainText
        (writeSteps result 0 (rs_Steps result)
           (formatDuration (rs_Duration result) @ [newline] @
            formatDistance (rs_Distance result) (rs_Units result) @ [newline] @
            showInt (int (length (rs_Steps result))) @ [newline]))\<rparr>"

definition writeError :: "nat \<Rightarrow> string \<Rightarrow> httpResponse" where
  "writeError code message =
     \<lparr>StatusCode = code, ContentType = ''application/json'', Payload = JSONError message\<rparr>"

definition writeJSON :: "RouteResponse \<Rightarrow> httpResponse" where
  "writeJSON data = \<lparr>StatusCode = 200, ContentType = ''application/json'', Payload = JSONRoute data\<rparr>"

text \<open>\<^verbatim>\<open>w.Header().Set("Content-Type", "text/plain"); fmt.Fprintf(w, "\n\n0\n%s\n", message)\<close>\<close>

definition writePlainTextError :: "string \<Rightarrow> httpResponse" where
  "writePlainTextError message =
     \<lparr>StatusCode = 200, ContentType = ''text/plain'',
      Payload = PlainText ([newline, newline] @ ''0'' @ [newline] @ message @ [newline])\<rparr>"

definition parseLatLng :: "env \<Rightarrow> string \<Rightarrow> string + (real \<times> real)" where
  "parseLatLng e s =
     (case Split s (CHR '','') of
        [p0, p1] \<Rightarrow>
          (case ParseFloat e (TrimSpace p0) of
             Inl err \<Rightarrow> Inl (''invalid latitude: '' @ err)
           | Inr lat \<Rightarrow>
               (case ParseFloat e (TrimSpace p1) of
                  Inl err \<Rightarrow> Inl (''invalid longitude: '' @ err)
                | Inr lng \<Rightarrow> Inr (lat, lng)))
      | _ \<Rightarrow> Inl ''invalid lat,lng format'')"

definition handleRouteRequest ::
  "env \<Rightarrow> string \<Rightarrow> real \<Rightarrow> real \<Rightarrow> real \<Rightarrow> real \<Rightarrow> TransportMode \<Rightarrow> DistanceUnit \<Rightarrow> CountryCode \<Rightarrow>
     string \<Rightarrow> string \<Rightarrow> world \<Rightarrow> httpResponse option \<times> world" where
  "handleRouteRequest e method fromLat fromLng toLat toLng mode units country fromDesc toDesc w =
     (let req = \<lparr>rq_FromLat = fromLat, rq_FromLng = fromLng, rq_ToLat = toLat, rq_ToLng = toLng,
                 rq_FromDesc = fromDesc, rq_ToDesc = toDesc, rq_Mode = mode, rq_Units = units,
                 rq_Country = country\<rparr>
      in case route e req w of
           (Inl Panicked, w') \<Rightarrow> (None, w')
         | (Inl (Err message), w') \<Rightarrow> (Some (writeError 500 message), w')
         | (Inr result, w') \<Rightarrow>
             (if method = ''POST'' then (Some (writePlainTextRoute result), w')
              else (Some (writeJSON result), w')))"

text \<open>The fields of a plain-text request, as the POST branch reads them from its lines.\<close>

definition lineField :: "string list \<Rightarrow> nat \<Rightarrow> string" where
  "lineField lines n = TrimSpace (TrimRightCR (lines ! n))"

definition postRouteRequest :: "string list \<Rightarrow> real \<Rightarrow> real \<Rightarrow> real \<Rightarrow> real \<Rightarrow> RouteRequest" where
  "postRouteRequest lines fromLat fromLng toLat toLng =
     (let mode = lineField lines 0;
          country = lineField lines 1;
          units = lineField lines 2;
          transportMode = (if \<not> ModeIsValid (ToLower mode) then DefaultMode else ToLower mode);
          distanceUnit = (if \<not> UnitIsValid (ToLower units) then DefaultUnit else ToLower units);
          countryCode = (if \<not> CountryIsValid (ToLower country) then ''us'' else ToLower country);
          fromDesc = (if length lines > 5 then lineField lines 5 else []);
          toDesc = (if length lines > 6 then lineField lines 6 else [])
      in \<lparr>rq_FromLat = fromLat, rq_FromLng = fromLng, rq_ToLat = toLat, rq_ToLng = toLng,
          rq_FromDesc = fromDesc, rq_ToDesc = toDesc, rq_Mode = transportMode,
          rq_Units = distanceUnit, rq_Country = countryCode\<rparr>)"

definition HandleRoute :: "env \<Rightarrow> httpRequest \<Rightarrow> world \<Rightarrow> httpResponse option \<times> world" where
  "HandleRoute e r w =
     (if Method r = ''GET'' then
        (let from = QueryGet r ''from'';
             to = QueryGet r ''to'';
             mode = QueryGet r ''mode'';
             units = QueryGet r ''units'';
             country = ToLower (QueryGet r ''country'');
             fromDesc = QueryGet r ''fromDesc'';
             toDesc = QueryGet r ''toDesc''
         in if from = [] \<or> to = []
            then (Some (writeError 400 ''both 'from' and 'to' parameters are required''), w)
            else if country \<noteq> [] \<and> \<not> CountryIsValid country
            then (Some (writeError 400 ''country must be a valid 2-letter ISO code in lowercase''), w)
            else if mode \<noteq> [] \<and> \<not> ModeIsValid (ToLower mode)
            then (Some (writeError 400 (''invalid mode. Must be one of: '' @ ModeWalking @ '', '' @
                          ModeBiking @ '', '' @ ModeAuto @ '', '' @ ModeTransit)), w)
            else if units \<noteq> [] \<and> \<not> UnitIsValid (ToLower units)
            then (Some (writeError 400 (''invalid units. Must be one of: '' @ UnitKilometers @ '', '' @
                          UnitMiles)), w)
            else
              (let transportMode = (if mode = [] then DefaultMode else ToLower mode);
                   distanceUnit = (if units = [] then DefaultUnit else ToLower units)
               in case parseLatLng e from of
                    Inl err \<Rightarrow> (Some (writeError 400 (''invalid 'from' parameter: '' @ err)), w)
                  | Inr (fromLat, fromLng) \<Rightarrow>
                      (case parseLatLng e to of
                         Inl err \<Rightarrow> (Some (writeError 400 (''invalid 'to' parameter: '' @ err)), w)
                       | Inr (toLat, toLng) \<Rightarrow>
                           handleRouteRequest e (Method r) fromLat fromLng toLat toLng
                             transportMode distanceUnit country fromDesc toDesc w)))
      else if Method r = ''POST'' then
        (case Body r of
           None \<Rightarrow> (Some (writePlainTextError ''failed to read request body''), w)
         | Some body \<Rightarrow>
             (let lines = Split (TrimSpace body) newline
              in if length lines < 5
                 then (Some (writePlainTextError ''request must contain at least 5 lines''), w)
                 else
                   (case parseLatLng e (lineField lines 3) of
                      Inl err \<Rightarrow> (Some (writePlainTextError ''invalid 'from' coordinates''), w)
                    | Inr (fromLat, fromLng) \<Rightarrow>
                        (case parseLatLng e (lineField lines 4) of
                           Inl err \<Rightarrow> (Some (writePlainTextError ''invalid 'to' coordinates''), w)
                         | Inr (toLat, toLng) \<Rightarrow>
                             (case route e (postRouteRequest lines fromLat fromLng toLat toLng) w of
                                (Inl Panicked, w') \<Rightarrow> (None, w')
                              | (Inl (Err message), w') \<Rightarrow> (Some (writePlainTextError message), w')
                              | (Inr result, w') \<Rightarrow> (Some (writePlainTextRoute result), w'))))))
      else (Some (writeError 405 ''only GET and POST methods are allowed''), w))"

text \<open>
  What \<open>route\<close> returns for one answer of the direct-routing backend when no fallback
  applies: the reading of the non-recursive branches of \<open>route\<close>.
\<close>

definition surfaced :: "RouteRequest \<Rightarrow> valhallaReply \<Rightarrow> failure + RouteResponse" where
  "surfaced req reply =
     (case reply of
        PostFailed err \<Rightarrow> Inl (Err (''error making request to Valhalla: '' @ err))
      | ErrorBodyUnreadable status err \<Rightarrow>
          Inl (Err (''valhalla API returned status '' @ showNat status @
                    '', failed to read error message: '' @ err))
      | ErrorStructured status errorCode error \<Rightarrow>
          (if errorCode = 170 then Inl (Err notConnectedMessage)
           else Inl (Err (''routing error: '' @ error)))
      | ErrorRaw status body \<Rightarrow>
          Inl (Err (''valhalla API returned status '' @ showNat status @ '': '' @ body))
      | TripUndecodable err \<Rightarrow> Inl (Err (''error decoding response: '' @ err))
      | TripOK vResp \<Rightarrow> directResult req vResp)"

section \<open>Example inputs\<close>

text \<open>A backend that finds no connection, whatever it is asked, and a transit request to it.\<close>

definition unconnectedEnv :: env where
  "unconnectedEnv =
     \<lparr>navConfig = \<lparr>NominatimURL = ''http://nominatim'', ValhallaURL = ''http://valhalla'',
                    TransitlandURL = [], TransitlandAPIKey = []\<rparr>,
      valhalla = (\<lambda>n vReq. ErrorStructured 400 170 ''No path could be found for input''),
      transitland = (\<lambda>q. PlanOK []),
      clock = (\<lambda>layout. ''2024-05-01T08:30''),
      ParseFloat = (\<lambda>s. Inl ''invalid syntax'')\<rparr>"

definition transitRequest :: RouteRequest where
  "transitRequest =
     \<lparr>rq_FromLat = 40, rq_FromLng = -74, rq_ToLat = 41, rq_ToLng = -73,
      rq_FromDesc = [], rq_ToDesc = [], rq_Mode = ModeTransit, rq_Units = UnitKilometers,
      rq_Country = []\<rparr>"

definition noCalls :: world where
  "noCalls = \<lparr>valhallaLog = [], transitlandLog = []\<rparr>"

text \<open>A driving request, and a backend that answers every call with a trip of two legs.\<close>

definition driveRequest :: RouteRequest where
  "driveRequest =
     \<lparr>rq_FromLat = 40, rq_FromLng = -74, rq_ToLat = 41, rq_ToLng = -73,
      rq_FromDesc = ''home'', rq_ToDesc = ''work'', rq_Mode = ModeAuto, rq_Units = UnitKilometers,
      rq_Country = []\<rparr>"

definition twoLegTrip :: valhallaResponse where
  "twoLegTrip =
     \<lparr>Trip_Legs =
        [\<lparr>vl_Maneuvers = [\<lparr>m_Type = 1, m_Instruction = ''Drive north.'', m_Distance = 1\<rparr>],
          vl_Shape = []\<rparr>,
         \<lparr>vl_Maneuvers = [\<lparr>m_Type = 4, m_Instruction = ''You have arrived at your destination.'',
                            m_Distance = 0\<rparr>],
          vl_Shape = []\<rparr>],
      Trip_Summary_Time = 625, Trip_Summary_Distance = 3.2\<rparr>"

definition tripEnv :: env where
  "tripEnv =
     \<lparr>navConfig = \<lparr>NominatimURL = ''http://nominatim'', ValhallaURL = ''http://valhalla'',
                    TransitlandURL = [], TransitlandAPIKey = []\<rparr>,
      valhalla = (\<lambda>n vReq. TripOK twoLegTrip),
      transitland = (\<lambda>q. PlanOK []),
      clock = (\<lambda>layout. ''2024-05-01T08:30''),
      ParseFloat = (\<lambda>s. if s = ''40'' then Inr 40 else if s = ''41'' then Inr 41
                          else Inl ''invalid syntax'')\<rparr>"

text \<open>
  An itinerary of two legs: the first runs from (0.00001, 0.00001) to (0, 0), the second
  from (0, 0) to (0.00001, 0.00001).
\<close>

definition twoLegItinerary :: transitlandItinerary where
  "twoLegItinerary =
     \<lparr>it_Duration = 1800, it_WalkTime = 300, it_TransitTime = 1500, it_WalkDistance = 400,
      it_Legs =
        [\<lparr>tl_Mode = ''WALK'', tl_Distance = 400, tl_Duration = 300, tl_From_Name = ''Origin'',
          tl_To_Name = ''Main St'', tl_RouteShortName = [], tl_RouteLongName = [],
          tl_AgencyName = [], tl_LegGeometry_Points = ''AA@@'', tl_IntermediateStops = []\<rparr>,
         \<lparr>tl_Mode = ''BUS'', tl_Distance = 5000, tl_Duration = 1500, tl_From_Name = ''Main St'',
          tl_To_Name = ''Oak Ave'', tl_RouteShortName = ''12'', tl_RouteLongName = [],
          tl_AgencyName = [], tl_LegGeometry_Points = ''??AA'', tl_IntermediateStops = [''Elm St'']\<rparr>]\<rparr>"

definition stepNumbers :: "failure + RouteResponse \<Rightarrow> int list option" where
  "stepNumbers r = (case r of Inl _ \<Rightarrow> None | Inr result \<Rightarrow> Some (map st_Number (rs_Steps result)))"

definition pathPoints :: "failure + RouteResponse \<Rightarrow> PathPoint list option" where
  "pathPoints r = (case r of Inl _ \<Rightarrow> None | Inr result \<Rightarrow> Some (p_Points (rs_Path result)))"

text \<open>The number of maneuvers of the first leg of a trip, none when the trip has no leg.\<close>

definition firstLegManeuvers :: "valhallaResponse \<Rightarrow> nat" where
  "firstLegManeuvers vResp =
     (case Trip_Legs vResp of [] \<Rightarrow> 0 | leg0 # _ \<Rightarrow> length (vl_Maneuvers leg0))"

text \<open>A transit request in the US, and an itinerary backend that answers with that itinerary.\<close>

definition usTransitRequest :: RouteRequest where
  "usTransitRequest =
     \<lparr>rq_FromLat = 40, rq_FromLng = -74, rq_ToLat = 41, rq_ToLng = -73,
      rq_FromDesc = [], rq_ToDesc = [], rq_Mode = ModeTransit, rq_Units = UnitKilometers,
      rq_Country = ''us''\<rparr>"

definition itineraryEnv :: env where
  "itineraryEnv =
     \<lparr>navConfig = \<lparr>NominatimURL = ''http://nominatim'', ValhallaURL = ''http://valhalla'',
                    TransitlandURL = ''http://transitland'', TransitlandAPIKey = ''key''\<rparr>,
      valhalla = (\<lambda>n vReq. PostFailed ''connection refused''),
      transitland = (\<lambda>q. PlanOK [twoLegItinerary]),
      clock = (\<lambda>layout. ''2024-05-01T08:30''),
      ParseFloat = (\<lambda>s. Inl ''invalid syntax'')\<rparr>"

text \<open>
  The specification's reading of the plain-text grammar, to compare the encoder with:
  a text is a sequence of lines, each ended by a newline; a step gives two lines, its
  icon and its description, the description followed by the formatted distance in
  parentheses when the route is no transit route and the step is not the last one.
\<close>

definition unlines :: "string list \<Rightarrow> string" where
  "unlines ls = concat (map (\<lambda>l. l @ [newline]) ls)"

definition stepLines :: "RouteResponse \<Rightarrow> nat \<times> RouteStep \<Rightarrow> string list" where
  "stepLines result p =
     [st_Icon (snd p),
      st_Description (snd p) @
        (if rs_Mode result \<noteq> ModeTransit \<and> Suc (fst p) < length (rs_Steps result)
         then '' ('' @ formatDistance (st_Distance (snd p)) (rs_Units result) @ '')''
         else [])]"

text \<open>
  Plain-text requests: the body cannot be read; the body is one line; the origin is no
  coordinate pair; and a well-formed request to a backend that cannot be reached.
\<close>

definition unreadablePost :: httpRequest where
  "unreadablePost = \<lparr>Method = ''POST'', QueryGet = (\<lambda>k. []), Body = None\<rparr>"

definition shortPost :: httpRequest where
  "shortPost = \<lparr>Method = ''POST'', QueryGet = (\<lambda>k. []), Body = Some ''auto''\<rparr>"

definition badFromPost :: httpRequest where
  "badFromPost =
     \<lparr>Method = ''POST'', QueryGet = (\<lambda>k. []),
      Body = Some (''auto'' @ [newline] @ ''us'' @ [newline] @ ''km'' @ [newline] @ ''abc'' @
                   [newline] @ ''41,41'')\<rparr>"

definition goodPost :: httpRequest where
  "goodPost =
     \<lparr>Method = ''POST'', QueryGet = (\<lambda>k. []),
      Body = Some (''auto'' @ [newline] @ ''ca'' @ [newline] @ ''km'' @ [newline] @ ''40,40'' @
                   [newline] @ ''41,41'')\<rparr>"

definition downEnv :: env where
  "downEnv =
     \<lparr>navConfig = \<lparr>NominatimURL = ''http://nominatim'', ValhallaURL = ''http://valhalla'',
                    TransitlandURL = [], TransitlandAPIKey = []\<rparr>,
      valhalla = (\<lambda>n vReq. PostFailed ''connection refused''),
      transitland = (\<lambda>q. PlanOK []),
      clock = (\<lambda>layout. ''2024-05-01T08:30''),
      ParseFloat = (\<lambda>s. if s = ''40'' then Inr 40 else if s = ''41'' then Inr 41
                          else Inl ''invalid syntax'')\<rparr>"

text \<open>
  A plain-text request whose mode and unit are no tokens of the enumerations, and a
  query request with such a mode.
\<close>

definition hoverPost :: httpRequest where
  "hoverPost =
     \<lparr>Method = ''POST'', QueryGet = (\<lambda>k. []),
      Body = Some (''hover'' @ [newline] @ ''ca'' @ [newline] @ ''yards'' @ [newline] @ ''40,40'' @
                   [newline] @ ''41,41'')\<rparr>"

definition hoverGet :: httpRequest where
  "hoverGet =
     \<lparr>Method = ''GET'',
      QueryGet = (\<lambda>k. if k = ''from'' then ''40,40'' else if k = ''to'' then ''41,41''
                       else if k = ''mode'' then ''hover'' else []),
      Body = Some []\<rparr>"

definition responseText :: "httpResponse option \<Rightarrow> string option" where
  "responseText resp =
     (case resp of
        None \<Rightarrow> None
      | Some r \<Rightarrow> (case Payload r of PlainText t \<Rightarrow> Some t | _ \<Rightarrow> None))"

definition driveGet :: httpRequest where
  "driveGet =
     \<lparr>Method = ''GET'',
      QueryGet = (\<lambda>k. if k = ''from'' then ''40,40'' else if k = ''to'' then ''41,41''
                       else if k = ''mode'' then ''AUTO'' else []),
      Body = Some []\<rparr>"

text \<open>
  A driving request in plain text, a backend whose one instruction has a line break in
  it, and a proxy in front of the backend that answers with a two-line error page.
\<close>

definition twoLineTrip :: valhallaResponse where
  "twoLineTrip =
     \<lparr>Trip_Legs =
        [\<lparr>vl_Maneuvers = [\<lparr>m_Type = 1, m_Instruction = ''Turn left'' @ [newline] @ ''then right'',
                            m_Distance = 1\<rparr>],
          vl_Shape = []\<rparr>],
      Trip_Summary_Time = 625, Trip_Summary_Distance = 3.2\<rparr>"

definition twoLineEnv :: env where
  "twoLineEnv =
     \<lparr>navConfig = \<lparr>NominatimURL = ''http://nominatim'', ValhallaURL = ''http://valhalla'',
                    TransitlandURL = [], TransitlandAPIKey = []\<rparr>,
      valhalla = (\<lambda>n vReq. TripOK twoLineTrip),
      transitland = (\<lambda>q. PlanOK []),
      clock = (\<lambda>layout. ''2024-05-01T08:30''),
      ParseFloat = (\<lambda>s. if s = ''40'' then Inr 40 else if s = ''41'' then Inr 41
                          else Inl ''invalid syntax'')\<rparr>"

definition gatewayEnv :: env where
  "gatewayEnv =
     \<lparr>navConfig = \<lparr>NominatimURL = ''http://nominatim'', ValhallaURL = ''http://valhalla'',
                    TransitlandURL = [], TransitlandAPIKey = []\<rparr>,
      valhalla = (\<lambda>n vReq. ErrorRaw 502 (''Bad Gateway'' @ [newline] @ ''nginx'')),
      transitland = (\<lambda>q. PlanOK []),
      clock = (\<lambda>layout. ''2024-05-01T08:30''),
      ParseFloat = (\<lambda>s. if s = ''40'' then Inr 40 else if s = ''41'' then Inr 41
                          else Inl ''invalid syntax'')\<rparr>"

definition driveResult :: RouteResponse where
  "driveResult =
     \<lparr>rs_Duration = 625, rs_Distance = 3.2, rs_Units = UnitKilometers,
      rs_Steps = [\<lparr>st_Number = 1, st_Description = ''Drive north'', st_Distance = 1,
                   st_Icon = ''Drive''\<rparr>,
                  \<lparr>st_Number = 2, st_Description = ''Arrive at destination'', st_Distance = 0,
                   st_Icon = []\<rparr>],
      rs_Path = \<lparr>p_Points = [], p_Length = 0, p_Width = 100, p_Height = 100\<rparr>,
      rs_Mode = ModeAuto,
      rs_From = \<lparr>l_Desc = [], l_Lat = 40, l_Lng = 40\<rparr>,
      rs_To = \<lparr>l_Desc = [], l_Lat = 41, l_Lng = 41\<rparr>\<rparr>"

section \<open>Properties of the polyline decoder\<close>

lemma manhattan_sym: "manhattan p q = manhattan q p"
  by (simp add: manhattan_def abs_i_def)

lemma isDuplicate_iff: "isDuplicate x y ps \<longleftrightarrow> (\<exists>e \<in> set ps. manhattan (x, y) e \<le> 2)"
  by (induction ps) auto

definition far_apart :: "PathPoint list \<Rightarrow> bool" where
  "far_apart ps = (\<forall>i j. i < j \<and> j < length ps \<longrightarrow> 2 < manhattan (ps ! i) (ps ! j))"

lemma far_apart_snoc:
  assumes "far_apart ps" and "\<not> isDuplicate x y ps"
  shows "far_apart (ps @ [(x, y)])"
  unfolding far_apart_def
proof (intro allI impI)
  fix i j
  assume ij: "i < j \<and> j < length (ps @ [(x, y)])"
  show "2 < manhattan ((ps @ [(x, y)]) ! i) ((ps @ [(x, y)]) ! j)"
  proof (cases "j < length ps")
    case True
    with ij assms(1) show ?thesis
      by (simp add: far_apart_def nth_append)
  next
    case False
    with ij have j: "j = length ps" and i: "i < length ps" by auto
    from i have "ps ! i \<in> set ps" by simp
    with assms(2) have "2 < manhattan (x, y) (ps ! i)"
      by (auto simp: isDuplicate_iff)
    then have "2 < manhattan (ps ! i) (x, y)"
      by (simp add: manhattan_sym)
    with i j show ?thesis by (simp add: nth_append)
  qed
qed

lemma normalizePoints_far_apart:
  "far_apart acc \<Longrightarrow> far_apart (normalizePoints minLat latRange minLng lngRange ps acc)"
  by (induction ps arbitrary: acc) (simp_all add: Let_def far_apart_snoc)

lemma far_apart_Nil: "far_apart []"
  by (simp add: far_apart_def)

lemma decodePolyline_far_apart:
  "decodePolyline encoded = Some points \<Longrightarrow> far_apart points"
  by (auto simp: decodePolyline_def far_apart_Nil normalizePoints_far_apart Let_def
      simp del: normalizePoints.simps
      split: if_splits option.splits list.splits prod.splits)

lemma normalizePoints_in_grid:
  assumes "\<forall>p \<in> set acc. 0 \<le> fst p \<and> fst p \<le> NormalizedGridSize \<and>
                         0 \<le> snd p \<and> snd p \<le> NormalizedGridSize"
  shows "\<forall>p \<in> set (normalizePoints minLat latRange minLng lngRange ps acc).
           0 \<le> fst p \<and> fst p \<le> NormalizedGridSize \<and> 0 \<le> snd p \<and> snd p \<le> NormalizedGridSize"
  using assms
proof (induction ps arbitrary: acc)
  case Nil
  then show ?case by simp
next
  case (Cons q ps)
  have clamp: "\<And>v. 0 \<le> max_i 0 (min_i NormalizedGridSize v) \<and>
                    max_i 0 (min_i NormalizedGridSize v) \<le> NormalizedGridSize"
    by (simp add: max_i_def min_i_def NormalizedGridSize_def)
  show ?case
    using Cons.prems clamp by (auto simp add: Let_def intro!: Cons.IH)
qed

lemma decodePolyline_shape:
  "decodePolyline encoded = Some points \<Longrightarrow>
     \<exists>minLat latRange minLng lngRange raw.
       points = [] \<or> points = normalizePoints minLat latRange minLng lngRange raw []"
  unfolding decodePolyline_def Let_def
  by (simp del: normalizePoints.simps split: if_splits option.splits list.splits prod.splits)
     blast+

lemma decodePolyline_two_points: "decodePolyline ''??AA'' = Some [(0, 0), (100, 100)]"
  by code_simp

text \<open>
  C2. Whatever string is decoded, no two points that \<open>decodePolyline\<close> retains are
  within Manhattan distance 2 of each other: a point is kept only when it is farther
  than 2 from every point kept before it.
\<close>

theorem decodePolyline_retained_far_apart:
  "decodePolyline encoded = Some points \<Longrightarrow> i < j \<Longrightarrow> j < length points \<Longrightarrow>
     2 < manhattan (points ! i) (points ! j) \<and> 2 < manhattan (points ! j) (points ! i)"
  using decodePolyline_far_apart [of encoded points]
  by (simp add: far_apart_def manhattan_sym)

theorem decodePolyline_retained_far_apart_witness:
  "decodePolyline ''??AA'' = Some [(0, 0), (100, 100)] \<and>
   2 < manhattan ([(0, 0), (100, 100)] ! 0) ([(0, 0), (100, 100)] ! 1)"
proof -
  have h: "decodePolyline ''??AA'' = Some [(0, 0), (100, 100)]"
    by (rule decodePolyline_two_points)
  from decodePolyline_retained_far_apart [OF h, of 0 1] h show ?thesis by simp
qed

text \<open>
  C3, as the code has it. Every point of a decoded path lies in [0,100] x [0,100]:
  both axes are clamped into [0, NormalizedGridSize], with NormalizedGridSize = 100.
\<close>

theorem decodePolyline_points_in_grid:
  "decodePolyline encoded = Some points \<Longrightarrow> p \<in> set points \<Longrightarrow>
     0 \<le> fst p \<and> fst p \<le> 100 \<and> 0 \<le> snd p \<and> snd p \<le> 100"
proof -
  assume dec: "decodePolyline encoded = Some points" and p: "p \<in> set points"
  from decodePolyline_shape [OF dec] obtain minLat latRange minLng lngRange raw
    where "points = [] \<or> points = normalizePoints minLat latRange minLng lngRange raw []"
    by blast
  moreover have "\<forall>q \<in> set (normalizePoints minLat latRange minLng lngRange raw []).
          0 \<le> fst q \<and> fst q \<le> NormalizedGridSize \<and> 0 \<le> snd q \<and> snd q \<le> NormalizedGridSize"
    by (rule normalizePoints_in_grid) simp
  ultimately show ?thesis
    using p by (auto simp: NormalizedGridSize_def)
qed

theorem decodePolyline_points_in_grid_witness:
  "decodePolyline ''??AA'' = Some [(0, 0), (100, 100)] \<and> (100, 100) \<in> set [(0, 0), (100 :: int, 100 :: int)] \<and>
   fst (100 :: int, 100 :: int) \<le> 100 \<and> snd (100 :: int, 100 :: int) \<le> 100"
proof -
  have h: "decodePolyline ''??AA'' = Some [(0, 0), (100, 100)]"
    by (rule decodePolyline_two_points)
  from decodePolyline_points_in_grid [OF h, of "(100, 100)"] h show ?thesis by simp
qed

text \<open>The claim as the specification words it, with 99 as the bound, fails on that path.\<close>

theorem decodePolyline_grid_99_counterexample:
  "(100, 100) \<in> set (the (decodePolyline ''??AA'')) \<and> \<not> fst (100 :: int, 100 :: int) \<le> 99"
  by (simp add: decodePolyline_two_points)

section \<open>Properties of the fallback\<close>

lemma UnitIsValid_nonempty: "UnitIsValid u \<Longrightarrow> u \<noteq> []"
  by (auto simp: UnitIsValid_def UnitKilometers_def UnitMiles_def)

lemma withDefaultUnits_valid:
  "rq_Units req = [] \<or> UnitIsValid (rq_Units req) \<Longrightarrow> UnitIsValid (rq_Units (withDefaultUnits req))"
  by (auto simp: withDefaultUnits_def DefaultUnit_def UnitIsValid_def)

lemma withDefaultUnits_idem: "UnitIsValid (rq_Units req) \<Longrightarrow> withDefaultUnits req = req"
  by (auto simp: withDefaultUnits_def dest: UnitIsValid_nonempty)

lemma route_without_fallback:
  assumes mode: "rq_Mode req \<noteq> ModeTransit" and units: "UnitIsValid (rq_Units req)"
  shows "route e req w =
           (surfaced req (valhalla e (length (valhallaLog w)) (valhallaRequestOf e req)),
            w\<lparr>valhallaLog := valhallaLog w @ [valhallaRequestOf e req]\<rparr>)"
proof -
  have same: "withDefaultUnits req = req"
    using units by (rule withDefaultUnits_idem)
  have c: "(rq_Mode req = ModeTransit \<and> rq_Country req = ''us'' \<and>
            TransitlandURL (navConfig e) \<noteq> []) = False"
    using mode by blast
  have u: "(rq_Units req \<noteq> [] \<and> \<not> UnitIsValid (rq_Units req)) = False"
    using units by blast
  show ?thesis
    using mode
    by (subst route.simps)
       (simp add: c u same surfaced_def Let_def split: valhallaReply.splits)
qed

lemma route_fallback_step:
  assumes mode: "rq_Mode req0 = ModeTransit"
    and direct: "\<not> (rq_Country req0 = ''us'' \<and> TransitlandURL (navConfig e) \<noteq> [])"
    and units: "rq_Units req0 = [] \<or> UnitIsValid (rq_Units req0)"
    and first: "valhalla e (length (valhallaLog w)) (valhallaRequestOf e (withDefaultUnits req0)) =
                  ErrorStructured status 170 msg"
  shows "route e req0 w =
           route e ((withDefaultUnits req0)\<lparr>rq_Mode := ModeAuto\<rparr>)
             (w\<lparr>valhallaLog := valhallaLog w @ [valhallaRequestOf e (withDefaultUnits req0)]\<rparr>)"
proof -
  have m: "rq_Mode (withDefaultUnits req0) = ModeTransit"
    using mode by (simp add: withDefaultUnits_def)
  have c: "(rq_Mode req0 = ModeTransit \<and> rq_Country req0 = ''us'' \<and>
            TransitlandURL (navConfig e) \<noteq> []) = False"
    using direct by blast
  have u: "(rq_Units req0 \<noteq> [] \<and> \<not> UnitIsValid (rq_Units req0)) = False"
    using units by blast
  show ?thesis
    by (subst route.simps) (simp add: c u first m Let_def)
qed

text \<open>
  C1. A transit request that takes the direct-routing path and is answered with the
  structured error of code 170 is issued again, once, with the mode forced to auto
  (costing \<open>auto\<close>): the backend is called exactly twice, the itinerary backend not at
  all, and whatever the second call answers is the result, read without any further
  fallback; a second code 170 is the "not connected" error.
\<close>

theorem transit_not_connected_falls_back_once:
  assumes mode: "rq_Mode req0 = ModeTransit"
    and direct: "\<not> (rq_Country req0 = ''us'' \<and> TransitlandURL (navConfig e) \<noteq> [])"
    and units: "rq_Units req0 = [] \<or> UnitIsValid (rq_Units req0)"
    and first: "valhalla e (length (valhallaLog w)) (valhallaRequestOf e (withDefaultUnits req0)) =
                  ErrorStructured status 170 msg"
  shows "route e req0 w =
           route e ((withDefaultUnits req0)\<lparr>rq_Mode := ModeAuto\<rparr>)
             (w\<lparr>valhallaLog := valhallaLog w @ [valhallaRequestOf e (withDefaultUnits req0)]\<rparr>)
       \<and> vq_Costing (valhallaRequestOf e ((withDefaultUnits req0)\<lparr>rq_Mode := ModeAuto\<rparr>)) = ''auto''
       \<and> valhallaLog (snd (route e req0 w)) =
           valhallaLog w @ [valhallaRequestOf e (withDefaultUnits req0),
                            valhallaRequestOf e ((withDefaultUnits req0)\<lparr>rq_Mode := ModeAuto\<rparr>)]
       \<and> transitlandLog (snd (route e req0 w)) = transitlandLog w
       \<and> fst (route e req0 w) =
           surfaced ((withDefaultUnits req0)\<lparr>rq_Mode := ModeAuto\<rparr>)
             (valhalla e (Suc (length (valhallaLog w)))
                (valhallaRequestOf e ((withDefaultUnits req0)\<lparr>rq_Mode := ModeAuto\<rparr>)))
       \<and> (valhalla e (Suc (length (valhallaLog w)))
             (valhallaRequestOf e ((withDefaultUnits req0)\<lparr>rq_Mode := ModeAuto\<rparr>)) =
             ErrorStructured status' 170 msg'
           \<longrightarrow> fst (route e req0 w) = Inl (Err notConnectedMessage))"
proof -
  let ?retry = "(withDefaultUnits req0)\<lparr>rq_Mode := ModeAuto\<rparr>"
  let ?w1 = "w\<lparr>valhallaLog := valhallaLog w @ [valhallaRequestOf e (withDefaultUnits req0)]\<rparr>"
  have step: "route e req0 w = route e ?retry ?w1"
    using mode direct units first by (rule route_fallback_step)
  have rm: "rq_Mode ?retry \<noteq> ModeTransit"
    by (simp add: ModeAuto_neq_ModeTransit)
  have ru: "UnitIsValid (rq_Units ?retry)"
    using withDefaultUnits_valid [OF units] by simp
  have retry: "route e ?retry ?w1 =
      (surfaced ?retry (valhalla e (length (valhallaLog ?w1)) (valhallaRequestOf e ?retry)),
       ?w1\<lparr>valhallaLog := valhallaLog ?w1 @ [valhallaRequestOf e ?retry]\<rparr>)"
    using rm ru by (rule route_without_fallback)
  have costing: "vq_Costing (valhallaRequestOf e ?retry) = ''auto''"
    by (simp add: valhallaRequestOf_def Let_def getTransportMode_def ModeAuto_def ModeTransit_def
        ModeWalking_def ModeBiking_def)
  show ?thesis
    using step retry costing by (simp add: surfaced_def)
qed

theorem transit_not_connected_falls_back_once_witness:
  "rq_Mode transitRequest = ModeTransit
   \<and> valhalla unconnectedEnv (length (valhallaLog noCalls))
        (valhallaRequestOf unconnectedEnv (withDefaultUnits transitRequest)) =
        ErrorStructured 400 170 ''No path could be found for input''
   \<and> length (valhallaLog (snd (route unconnectedEnv transitRequest noCalls))) = 2
   \<and> fst (route unconnectedEnv transitRequest noCalls) = Inl (Err notConnectedMessage)"
proof -
  have mode: "rq_Mode transitRequest = ModeTransit"
    by (simp add: transitRequest_def)
  have direct: "\<not> (rq_Country transitRequest = ''us'' \<and> TransitlandURL (navConfig unconnectedEnv) \<noteq> [])"
    by (simp add: transitRequest_def)
  have units: "rq_Units transitRequest = [] \<or> UnitIsValid (rq_Units transitRequest)"
    by (simp add: transitRequest_def UnitIsValid_def)
  have first: "valhalla unconnectedEnv (length (valhallaLog noCalls))
        (valhallaRequestOf unconnectedEnv (withDefaultUnits transitRequest)) =
        ErrorStructured 400 170 ''No path could be found for input''"
    by (simp add: unconnectedEnv_def)
  have second: "valhalla unconnectedEnv (Suc (length (valhallaLog noCalls)))
        (valhallaRequestOf unconnectedEnv ((withDefaultUnits transitRequest)\<lparr>rq_Mode := ModeAuto\<rparr>)) =
        ErrorStructured 400 170 ''No path could be found for input''"
    by (simp add: unconnectedEnv_def)
  note fb = transit_not_connected_falls_back_once [OF mode direct units first,
      of 400 "''No path could be found for input''"]
  from fb [THEN conjunct2, THEN conjunct2, THEN conjunct1]
  have log: "length (valhallaLog (snd (route unconnectedEnv transitRequest noCalls))) = 2"
    by (simp add: noCalls_def)
  from fb [THEN conjunct2, THEN conjunct2, THEN conjunct2, THEN conjunct2, THEN conjunct2] second
  have res: "fst (route unconnectedEnv transitRequest noCalls) = Inl (Err notConnectedMessage)"
    by (rule mp)
  from mode first log res show ?thesis by blast
qed

section \<open>Properties of the assembled result\<close>

lemma upt_shift:
  "map int [Suc i..<Suc (Suc (i + n))] = (int i + 1) # map int [Suc (Suc i)..<Suc (Suc (i + n))]"
  by (simp add: upt_conv_Cons del: upt_Suc)

lemma processManeuvers_numbers:
  "map st_Number (processManeuvers req i ms steps) =
     map st_Number steps @ map int [Suc i..<Suc (i + length ms)]"
proof (induction ms arbitrary: i steps)
  case Nil
  then show ?case by simp
next
  case (Cons m ms)
  show ?case
    by (simp add: Cons.IH Let_def upt_shift del: upt_Suc)
qed

lemma processLegs_numbers:
  "processLegs req i legs steps allPoints = Some (steps', allPoints') \<Longrightarrow>
     map st_Number steps' = map st_Number steps @ map int [Suc i..<Suc (i + length legs)]"
proof (induction legs arbitrary: i steps allPoints)
  case Nil
  then show ?case by simp
next
  case (Cons leg legs)
  show ?case
  proof (cases "tl_LegGeometry_Points leg \<noteq> []")
    case True
    with Cons.prems obtain points where
      "processLegs req (i + 1) legs
         (steps @ [\<lparr>st_Number = int i + 1, st_Description = legDescription req leg,
                     st_Distance = convertDistance (tl_Distance leg) (rq_Units req),
                     st_Icon = legIcon leg\<rparr>]) (allPoints @ points) = Some (steps', allPoints')"
      by (auto simp: Let_def split: option.splits)
    from Cons.IH [OF this] show ?thesis by (simp add: upt_shift del: upt_Suc)
  next
    case False
    with Cons.prems have
      "processLegs req (i + 1) legs
         (steps @ [\<lparr>st_Number = int i + 1, st_Description = legDescription req leg,
                     st_Distance = convertDistance (tl_Distance leg) (rq_Units req),
                     st_Icon = legIcon leg\<rparr>]) allPoints = Some (steps', allPoints')"
      by (simp add: Let_def)
    from Cons.IH [OF this] show ?thesis by (simp add: upt_shift del: upt_Suc)
  qed
qed

lemma directResult_numbers:
  "directResult req vResp = Inr result \<Longrightarrow>
     map st_Number (rs_Steps result) = map int [1..<Suc (firstLegManeuvers vResp)]"
  by (auto simp: directResult_def firstLegManeuvers_def Let_def processManeuvers_numbers
      simp del: upt_Suc split: list.splits option.splits)

lemma itineraryResult_numbers:
  "itineraryResult req itinerary = Inr result \<Longrightarrow>
     map st_Number (rs_Steps result) = map int [1..<Suc (length (it_Legs itinerary))]"
  by (auto simp: itineraryResult_def simp del: upt_Suc split: option.splits dest!: processLegs_numbers)

lemma routeTransitUS_origin:
  "routeTransitUS e req w = (Inr result, w') \<Longrightarrow>
     \<exists>itinerary others. transitland e (transitlandQueryOf e req) = PlanOK (itinerary # others) \<and>
        itineraryResult req itinerary = Inr result"
  by (auto simp: routeTransitUS_def Let_def split: if_splits transitlandReply.splits list.splits)

lemma surfaced_origin:
  "surfaced req reply = Inr result \<Longrightarrow> \<exists>vResp. reply = TripOK vResp \<and> directResult req vResp = Inr result"
  by (auto simp: surfaced_def split: valhallaReply.splits if_splits)

text \<open>Every result of \<open>route\<close> was assembled by one of the two adapters from a backend's answer.\<close>

lemma route_origin:
  assumes "route e req0 w = (Inr result, w')"
  shows "(\<exists>itinerary others. transitland e (transitlandQueryOf e req0) = PlanOK (itinerary # others) \<and>
            itineraryResult req0 itinerary = Inr result)
       \<or> (\<exists>req n vResp. valhalla e n (valhallaRequestOf e req) = TripOK vResp \<and>
            directResult req vResp = Inr result)"
proof (cases "rq_Mode req0 = ModeTransit \<and> rq_Country req0 = ''us'' \<and> TransitlandURL (navConfig e) \<noteq> []")
  case True
  then have "route e req0 w = routeTransitUS e req0 w"
    by (subst route.simps) simp
  with assms have "routeTransitUS e req0 w = (Inr result, w')"
    by simp
  from routeTransitUS_origin [OF this] show ?thesis by blast
next
  case notUS: False
  show ?thesis
  proof (cases "rq_Units req0 \<noteq> [] \<and> \<not> UnitIsValid (rq_Units req0)")
    case True
    have c: "(rq_Mode req0 = ModeTransit \<and> rq_Country req0 = ''us'' \<and>
              TransitlandURL (navConfig e) \<noteq> []) = False"
      using notUS by blast
    have u: "(rq_Units req0 \<noteq> [] \<and> \<not> UnitIsValid (rq_Units req0)) = True"
      using True by blast
    have "fst (route e req0 w) =
        Inl (Err (''invalid units: must be one of: '' @ UnitKilometers @ '', '' @ UnitMiles))"
      by (subst route.simps) (simp add: c u)
    with assms show ?thesis by simp
  next
    case unitsOK: False
    then have units: "rq_Units req0 = [] \<or> UnitIsValid (rq_Units req0)" by blast
    let ?req = "withDefaultUnits req0"
    let ?reply = "valhalla e (length (valhallaLog w)) (valhallaRequestOf e ?req)"
    show ?thesis
    proof (cases "rq_Mode req0 = ModeTransit \<and> (\<exists>status msg. ?reply = ErrorStructured status 170 msg)")
      case True
      then obtain status msg where mode: "rq_Mode req0 = ModeTransit"
        and first: "?reply = ErrorStructured status 170 msg" by blast
      let ?retry = "?req\<lparr>rq_Mode := ModeAuto\<rparr>"
      let ?w1 = "w\<lparr>valhallaLog := valhallaLog w @ [valhallaRequestOf e ?req]\<rparr>"
      from notUS have direct: "\<not> (rq_Country req0 = ''us'' \<and> TransitlandURL (navConfig e) \<noteq> [])"
        using mode by blast
      have "route e req0 w = route e ?retry ?w1"
        using mode direct units first by (rule route_fallback_step)
      moreover have "route e ?retry ?w1 =
          (surfaced ?retry (valhalla e (length (valhallaLog ?w1)) (valhallaRequestOf e ?retry)),
           ?w1\<lparr>valhallaLog := valhallaLog ?w1 @ [valhallaRequestOf e ?retry]\<rparr>)"
        by (rule route_without_fallback)
           (simp_all add: ModeAuto_neq_ModeTransit withDefaultUnits_valid [OF units])
      ultimately have "surfaced ?retry (valhalla e (length (valhallaLog ?w1)) (valhallaRequestOf e ?retry)) =
          Inr result"
        using assms by simp
      from surfaced_origin [OF this] show ?thesis by blast
    next
      case False
      have c: "(rq_Mode req0 = ModeTransit \<and> rq_Country req0 = ''us'' \<and>
                TransitlandURL (navConfig e) \<noteq> []) = False"
        using notUS by blast
      have u: "(rq_Units req0 \<noteq> [] \<and> \<not> UnitIsValid (rq_Units req0)) = False"
        using unitsOK by blast
      have m: "rq_Mode ?req = rq_Mode req0"
        by (simp add: withDefaultUnits_def)
      have "fst (route e req0 w) = surfaced ?req ?reply"
        using False
        by (subst route.simps)
           (auto simp: c u m Let_def surfaced_def split: valhallaReply.splits)
      with assms have "surfaced ?req ?reply = Inr result" by simp
      from surfaced_origin [OF this] show ?thesis by blast
    qed
  qed
qed

lemma decodePolyline_back: "decodePolyline ''AA@@'' = Some [(100, 100), (0, 0)]"
  by code_simp

lemma twoLegItinerary_legs:
  "processLegs req 0 (it_Legs twoLegItinerary) [] [] =
     Some ([\<lparr>st_Number = 1, st_Description = legDescription req (it_Legs twoLegItinerary ! 0),
              st_Distance = convertDistance 400 (rq_Units req),
              st_Icon = legIcon (it_Legs twoLegItinerary ! 0)\<rparr>,
            \<lparr>st_Number = 2, st_Description = legDescription req (it_Legs twoLegItinerary ! 1),
              st_Distance = convertDistance 5000 (rq_Units req),
              st_Icon = legIcon (it_Legs twoLegItinerary ! 1)\<rparr>],
           [(100, 100), (0, 0), (0, 0), (100, 100)])"
  by (simp add: twoLegItinerary_def Let_def decodePolyline_back decodePolyline_two_points)

lemma route_tripEnv:
  "route tripEnv driveRequest noCalls =
     (directResult driveRequest twoLegTrip,
      noCalls\<lparr>valhallaLog := [valhallaRequestOf tripEnv driveRequest]\<rparr>)"
proof -
  have "route tripEnv driveRequest noCalls =
      (surfaced driveRequest (valhalla tripEnv (length (valhallaLog noCalls))
          (valhallaRequestOf tripEnv driveRequest)),
       noCalls\<lparr>valhallaLog := valhallaLog noCalls @ [valhallaRequestOf tripEnv driveRequest]\<rparr>)"
    by (rule route_without_fallback)
       (simp_all add: driveRequest_def ModeAuto_neq_ModeTransit UnitIsValid_def)
  then show ?thesis
    by (simp add: tripEnv_def surfaced_def noCalls_def)
qed

lemma directResult_twoLegTrip:
  "\<exists>result. directResult driveRequest twoLegTrip = Inr result"
  by (simp add: directResult_def twoLegTrip_def Let_def decodePolyline_def)

lemma numbered_length: "map f steps = map int [1..<Suc n] \<Longrightarrow> length steps = n"
  by (drule arg_cong [where f = length]) simp

text \<open>
  C4, as the code has it. The steps of every result of \<open>route\<close> are numbered 1, 2, ...
  up to their count; the direct adapter makes one step for each maneuver of the first
  leg of the trip (none for a trip without legs), the itinerary adapter one step for
  each leg of the itinerary.
\<close>

theorem step_numbers_contiguous:
  "(route e req w = (Inr result, w') \<longrightarrow>
      map st_Number (rs_Steps result) = map int [1..<Suc (length (rs_Steps result))])
   \<and> (directResult req1 vResp = Inr result1 \<longrightarrow>
      map st_Number (rs_Steps result1) = map int [1..<Suc (firstLegManeuvers vResp)])
   \<and> (itineraryResult req2 itinerary = Inr result2 \<longrightarrow>
      map st_Number (rs_Steps result2) = map int [1..<Suc (length (it_Legs itinerary))])"
proof (intro conjI impI)
  assume r: "route e req w = (Inr result, w')"
  note len = numbered_length
  let ?numbered = "map st_Number (rs_Steps result) = map int [1..<Suc (length (rs_Steps result))]"
  from route_origin [OF r] show ?numbered
  proof
    assume "\<exists>itinerary others. transitland e (transitlandQueryOf e req) = PlanOK (itinerary # others) \<and>
        itineraryResult req itinerary = Inr result"
    then obtain itinerary where "itineraryResult req itinerary = Inr result" by blast
    from itineraryResult_numbers [OF this] len show ?numbered by metis
  next
    assume "\<exists>req' n vResp. valhalla e n (valhallaRequestOf e req') = TripOK vResp \<and>
        directResult req' vResp = Inr result"
    then obtain req' vResp where "directResult req' vResp = Inr result" by blast
    from directResult_numbers [OF this] len show ?numbered by metis
  qed
next
  assume "directResult req1 vResp = Inr result1"
  then show "map st_Number (rs_Steps result1) = map int [1..<Suc (firstLegManeuvers vResp)]"
    by (rule directResult_numbers)
next
  assume "itineraryResult req2 itinerary = Inr result2"
  then show "map st_Number (rs_Steps result2) = map int [1..<Suc (length (it_Legs itinerary))]"
    by (rule itineraryResult_numbers)
qed

theorem step_numbers_contiguous_witness:
  "(\<exists>result w'. route tripEnv driveRequest noCalls = (Inr result, w') \<and>
       directResult driveRequest twoLegTrip = Inr result \<and>
       map st_Number (rs_Steps result) = [1])
   \<and> (\<exists>result. itineraryResult transitRequest twoLegItinerary = Inr result \<and>
       map st_Number (rs_Steps result) = [1, 2])"
proof -
  obtain r1 where d: "directResult driveRequest twoLegTrip = Inr r1"
    using directResult_twoLegTrip by blast
  have rt: "route tripEnv driveRequest noCalls =
      (Inr r1, noCalls\<lparr>valhallaLog := [valhallaRequestOf tripEnv driveRequest]\<rparr>)"
    by (simp add: route_tripEnv d)
  obtain r2 where i: "itineraryResult transitRequest twoLegItinerary = Inr r2"
    by (simp add: itineraryResult_def twoLegItinerary_legs)
  note sn = step_numbers_contiguous [where ?req1.0 = driveRequest and vResp = twoLegTrip
      and ?result1.0 = r1 and ?req2.0 = transitRequest and itinerary = twoLegItinerary
      and ?result2.0 = r2]
  from sn d have n1: "map st_Number (rs_Steps r1) = map int [1..<Suc (firstLegManeuvers twoLegTrip)]"
    by blast
  from sn i have n2: "map st_Number (rs_Steps r2) = map int [1..<Suc (length (it_Legs twoLegItinerary))]"
    by blast
  have "map st_Number (rs_Steps r1) = [1]"
    using n1 by (simp add: firstLegManeuvers_def twoLegTrip_def)
  moreover have "map st_Number (rs_Steps r2) = [1, 2]"
    using n2 by (simp add: twoLegItinerary_def upt_conv_Cons del: upt_Suc)
  ultimately show ?thesis
    using rt d i by simp
qed

text \<open>
  The claim as the specification words it counts the maneuvers of all legs: a trip of
  two legs with one maneuver each gets the single step 1, not the steps 1 and 2.
\<close>

theorem step_numbers_all_legs_counterexample:
  "stepNumbers (directResult driveRequest twoLegTrip) = Some [1] \<and>
   length (concat (map vl_Maneuvers (Trip_Legs twoLegTrip))) = 2"
  by (simp add: stepNumbers_def directResult_def twoLegTrip_def Let_def decodePolyline_def)

section \<open>Properties of the itinerary adapter\<close>

lemma directResult_path_far_apart:
  "directResult req vResp = Inr result \<Longrightarrow> far_apart (p_Points (rs_Path result))"
  by (auto simp: directResult_def Let_def far_apart_Nil decodePolyline_far_apart
      split: list.splits option.splits)

lemma route_itineraryEnv:
  "fst (route itineraryEnv usTransitRequest noCalls) = itineraryResult usTransitRequest twoLegItinerary"
  by (subst route.simps)
     (simp add: itineraryEnv_def usTransitRequest_def routeTransitUS_def Let_def)

lemma itineraryResult_twoLegItinerary:
  "pathPoints (itineraryResult req twoLegItinerary) = Some [(100, 100), (0, 0), (0, 0), (100, 100)]"
  by (simp add: pathPoints_def itineraryResult_def twoLegItinerary_legs)

text \<open>
  C5. The path of the direct adapter is one decoded path and keeps the invariant
  (\<open>directResult_path_far_apart\<close>). The itinerary adapter decodes every leg by itself,
  each against its own bounding box, and appends the results: where one leg ends and the
  next begins the path of the example has the point (0, 0) twice in a row, at Manhattan
  distance 0.
\<close>

theorem itinerary_path_repeats_points:
  "pathPoints (fst (route itineraryEnv usTransitRequest noCalls)) =
     Some [(100, 100), (0, 0), (0, 0), (100, 100)]
   \<and> manhattan ([(100, 100), (0, 0), (0, 0), (100, 100)] ! 1)
                ([(100, 100), (0, 0), (0, 0), (100, 100)] ! 2) = 0"
  by (simp add: route_itineraryEnv itineraryResult_twoLegItinerary manhattan_def abs_i_def)

text \<open>
  C10. The summary distance of an itinerary result is the walk distance of the first
  itinerary in the requested unit (metres over 1609.344 for miles, over 1000 otherwise),
  whatever the legs are; the duration is the duration of that itinerary.
\<close>

theorem itinerary_distance_is_walk_distance:
  "routeTransitUS e req w = (Inr result, w') \<Longrightarrow>
     \<exists>itinerary others.
        transitland e (transitlandQueryOf e req) = PlanOK (itinerary # others)
        \<and> rs_Distance result = convertDistance (it_WalkDistance itinerary) (rq_Units req)
        \<and> rs_Distance result =
            (if rq_Units req = UnitMiles then it_WalkDistance itinerary / 1609.344
             else it_WalkDistance itinerary / 1000)
        \<and> rs_Duration result = it_Duration itinerary"
proof -
  assume "routeTransitUS e req w = (Inr result, w')"
  from routeTransitUS_origin [OF this] obtain itinerary others
    where t: "transitland e (transitlandQueryOf e req) = PlanOK (itinerary # others)"
      and r: "itineraryResult req itinerary = Inr result"
    by blast
  from r have "rs_Distance result = convertDistance (it_WalkDistance itinerary) (rq_Units req)"
    and "rs_Duration result = it_Duration itinerary"
    by (auto simp: itineraryResult_def split: option.splits)
  with t show ?thesis
    by (auto simp: convertDistance_def metersPerMile_def)
qed

theorem itinerary_distance_is_walk_distance_witness:
  "\<exists>result w'. routeTransitUS itineraryEnv usTransitRequest noCalls = (Inr result, w')
      \<and> rs_Distance result = 2 / 5 \<and> rs_Duration result = 1800
      \<and> sum_list (map tl_Distance (it_Legs twoLegItinerary)) = 5400"
proof -
  obtain r where i: "itineraryResult usTransitRequest twoLegItinerary = Inr r"
    by (simp add: itineraryResult_def twoLegItinerary_legs)
  have rt: "routeTransitUS itineraryEnv usTransitRequest noCalls =
      (Inr r, noCalls\<lparr>transitlandLog :=
          transitlandLog noCalls @ [transitlandQueryOf itineraryEnv usTransitRequest]\<rparr>)"
    by (simp add: routeTransitUS_def itineraryEnv_def Let_def i)
  from itinerary_distance_is_walk_distance [OF rt] obtain itinerary others
    where t: "transitland itineraryEnv (transitlandQueryOf itineraryEnv usTransitRequest) =
                PlanOK (itinerary # others)"
      and d: "rs_Distance r =
            (if rq_Units usTransitRequest = UnitMiles then it_WalkDistance itinerary / 1609.344
             else it_WalkDistance itinerary / 1000)"
      and u: "rs_Duration r = it_Duration itinerary"
    by blast
  from t have "itinerary = twoLegItinerary"
    by (simp add: itineraryEnv_def)
  with d u have "rs_Distance r = 2 / 5" and "rs_Duration r = 1800"
    by (simp_all add: twoLegItinerary_def usTransitRequest_def UnitKilometers_def UnitMiles_def)
  moreover have "sum_list (map tl_Distance (it_Legs twoLegItinerary)) = 5400"
    by (simp add: twoLegItinerary_def)
  ultimately show ?thesis using rt by blast
qed

section \<open>Properties of the wire formatting\<close>

lemma roundHalfEven_near: "\<bar>x - real_of_int (roundHalfEven x)\<bar> \<le> 1 / 2"
proof -
  have "real_of_int \<lfloor>x\<rfloor> \<le> x" and "x < real_of_int \<lfloor>x\<rfloor> + 1"
    by linarith+
  then show ?thesis
    by (auto simp: roundHalfEven_def Let_def)
qed

lemma roundHalfEven_nonneg: "0 \<le> x \<Longrightarrow> 0 \<le> roundHalfEven x"
proof -
  assume "0 \<le> x"
  then have "0 \<le> \<lfloor>x\<rfloor>" by simp
  then show ?thesis
    by (auto simp: roundHalfEven_def Let_def)
qed

lemma sprintf_f_0:
  assumes "0 \<le> x"
  shows "\<exists>k. sprintf_f 0 x = showNat k \<and> \<bar>x - real k\<bar> \<le> 1 / 2"
proof -
  let ?k = "nat (roundHalfEven x)"
  have "real ?k = real_of_int (roundHalfEven x)"
    using roundHalfEven_nonneg [OF assms] by simp
  then have "\<bar>x - real ?k\<bar> \<le> 1 / 2"
    using roundHalfEven_near [of x] by simp
  moreover have "sprintf_f 0 x = showNat ?k"
    using assms by (simp add: sprintf_f_def Let_def)
  ultimately show ?thesis by blast
qed

lemma sprintf_f_1:
  assumes "0 \<le> x"
  shows "\<exists>n. sprintf_f 1 x = showNat (n div 10) @ ''.'' @ [digitChar (n mod 10)] \<and>
             \<bar>x * 10 - real n\<bar> \<le> 1 / 2"
proof -
  let ?n = "nat (roundHalfEven (x * 10))"
  have nn: "0 \<le> x * 10" using assms by simp
  have "real ?n = real_of_int (roundHalfEven (x * 10))"
    using roundHalfEven_nonneg [OF nn] by simp
  then have "\<bar>x * 10 - real ?n\<bar> \<le> 1 / 2"
    using roundHalfEven_near [of "x * 10"] by simp
  moreover have "sprintf_f 1 x = showNat (?n div 10) @ ''.'' @ [digitChar (?n mod 10)]"
    using assms by (simp add: sprintf_f_def Let_def)
  ultimately show ?thesis by blast
qed

text \<open>
  C9, as the code has it. For a distance that is not negative: in miles, a distance
  below 0.1 mile is rendered in feet (the distance times 5280, to the nearest whole
  number, then \<open>ft\<close>), any other with one decimal and \<open>mi\<close>; in kilometers (every
  unit that is not \<open>mi\<close>), a distance below 1 is rendered in meters (the distance
  times 1000, to the nearest whole number, then \<open>m\<close>), any other with one decimal and
  \<open>km\<close>. One decimal: the digits of the nearest number of tenths \<open>n\<close>, as
  \<open>n div 10\<close>, a point, and the digit \<open>n mod 10\<close>.
\<close>

theorem formatDistance_thresholds:
  assumes "0 \<le> d"
  shows "(u = UnitMiles \<and> d < 1 / 10 \<longrightarrow>
            (\<exists>k. formatDistance d u = showNat k @ ''ft'' \<and> \<bar>d * 5280 - real k\<bar> \<le> 1 / 2))
       \<and> (u = UnitMiles \<and> 1 / 10 \<le> d \<longrightarrow>
            (\<exists>n. formatDistance d u = showNat (n div 10) @ ''.'' @ [digitChar (n mod 10)] @ ''mi'' \<and>
                 \<bar>d * 10 - real n\<bar> \<le> 1 / 2))
       \<and> (u \<noteq> UnitMiles \<and> d < 1 \<longrightarrow>
            (\<exists>k. formatDistance d u = showNat k @ ''m'' \<and> \<bar>d * 1000 - real k\<bar> \<le> 1 / 2))
       \<and> (u \<noteq> UnitMiles \<and> 1 \<le> d \<longrightarrow>
            (\<exists>n. formatDistance d u = showNat (n div 10) @ ''.'' @ [digitChar (n mod 10)] @ ''km'' \<and>
                 \<bar>d * 10 - real n\<bar> \<le> 1 / 2))"
proof (intro conjI impI)
  assume "u = UnitMiles \<and> d < 1 / 10"
  moreover have "0 \<le> d * 5280" using assms by simp
  from sprintf_f_0 [OF this] obtain k
    where "sprintf_f 0 (d * 5280) = showNat k" and "\<bar>d * 5280 - real k\<bar> \<le> 1 / 2" by blast
  ultimately show "\<exists>k. formatDistance d u = showNat k @ ''ft'' \<and> \<bar>d * 5280 - real k\<bar> \<le> 1 / 2"
    by (auto simp: formatDistance_def)
next
  assume "u = UnitMiles \<and> 1 / 10 \<le> d"
  moreover from sprintf_f_1 [OF assms] obtain n
    where "sprintf_f 1 d = showNat (n div 10) @ ''.'' @ [digitChar (n mod 10)]"
      and "\<bar>d * 10 - real n\<bar> \<le> 1 / 2" by blast
  ultimately show "\<exists>n. formatDistance d u = showNat (n div 10) @ ''.'' @ [digitChar (n mod 10)] @ ''mi'' \<and>
      \<bar>d * 10 - real n\<bar> \<le> 1 / 2"
    by (auto simp: formatDistance_def)
next
  assume "u \<noteq> UnitMiles \<and> d < 1"
  moreover have "0 \<le> d * 1000" using assms by simp
  from sprintf_f_0 [OF this] obtain k
    where "sprintf_f 0 (d * 1000) = showNat k" and "\<bar>d * 1000 - real k\<bar> \<le> 1 / 2" by blast
  ultimately show "\<exists>k. formatDistance d u = showNat k @ ''m'' \<and> \<bar>d * 1000 - real k\<bar> \<le> 1 / 2"
    by (auto simp: formatDistance_def)
next
  assume "u \<noteq> UnitMiles \<and> 1 \<le> d"
  moreover from sprintf_f_1 [OF assms] obtain n
    where "sprintf_f 1 d = showNat (n div 10) @ ''.'' @ [digitChar (n mod 10)]"
      and "\<bar>d * 10 - real n\<bar> \<le> 1 / 2" by blast
  ultimately show "\<exists>n. formatDistance d u = showNat (n div 10) @ ''.'' @ [digitChar (n mod 10)] @ ''km'' \<and>
      \<bar>d * 10 - real n\<bar> \<le> 1 / 2"
    by (auto simp: formatDistance_def)
qed

lemma formatDistance_examples:
  "formatDistance (1 / 20) UnitMiles = ''264ft''"
  "formatDistance (1 / 2) UnitMiles = ''0.5mi''"
  "formatDistance (9 / 20) UnitKilometers = ''450m''"
  "formatDistance (16 / 5) UnitKilometers = ''3.2km''"
  by code_simp+

theorem formatDistance_thresholds_witness:
  "(0 :: real) \<le> 1 / 20 \<and> (1 / 20 :: real) < 1 / 10
   \<and> (\<exists>k. formatDistance (1 / 20) UnitMiles = showNat k @ ''ft'' \<and> \<bar>1 / 20 * 5280 - real k\<bar> \<le> 1 / 2)
   \<and> formatDistance (1 / 20) UnitMiles = ''264ft''
   \<and> (1 / 10 :: real) \<le> 1 / 2
   \<and> (\<exists>n. formatDistance (1 / 2) UnitMiles = showNat (n div 10) @ ''.'' @ [digitChar (n mod 10)] @ ''mi'' \<and>
           \<bar>1 / 2 * 10 - real n\<bar> \<le> 1 / 2)
   \<and> formatDistance (1 / 2) UnitMiles = ''0.5mi''
   \<and> UnitKilometers \<noteq> UnitMiles \<and> (9 / 20 :: real) < 1
   \<and> (\<exists>k. formatDistance (9 / 20) UnitKilometers = showNat k @ ''m'' \<and> \<bar>9 / 20 * 1000 - real k\<bar> \<le> 1 / 2)
   \<and> formatDistance (9 / 20) UnitKilometers = ''450m''
   \<and> (1 :: real) \<le> 16 / 5
   \<and> (\<exists>n. formatDistance (16 / 5) UnitKilometers = showNat (n div 10) @ ''.'' @ [digitChar (n mod 10)] @ ''km'' \<and>
           \<bar>16 / 5 * 10 - real n\<bar> \<le> 1 / 2)
   \<and> formatDistance (16 / 5) UnitKilometers = ''3.2km''"
proof -
  have km: "UnitKilometers \<noteq> UnitMiles"
    by (simp add: UnitKilometers_def UnitMiles_def)
  have a: "\<exists>k. formatDistance (1 / 20) UnitMiles = showNat k @ ''ft'' \<and> \<bar>1 / 20 * 5280 - real k\<bar> \<le> 1 / 2"
    using formatDistance_thresholds [of "1 / 20" UnitMiles] by simp
  have b: "\<exists>n. formatDistance (1 / 2) UnitMiles = showNat (n div 10) @ ''.'' @ [digitChar (n mod 10)] @ ''mi'' \<and>
           \<bar>1 / 2 * 10 - real n\<bar> \<le> 1 / 2"
    using formatDistance_thresholds [of "1 / 2" UnitMiles] by simp
  have c: "\<exists>k. formatDistance (9 / 20) UnitKilometers = showNat k @ ''m'' \<and> \<bar>9 / 20 * 1000 - real k\<bar> \<le> 1 / 2"
    using formatDistance_thresholds [of "9 / 20" UnitKilometers] km by simp
  have d: "\<exists>n. formatDistance (16 / 5) UnitKilometers = showNat (n div 10) @ ''.'' @ [digitChar (n mod 10)] @ ''km'' \<and>
           \<bar>16 / 5 * 10 - real n\<bar> \<le> 1 / 2"
    using formatDistance_thresholds [of "16 / 5" UnitKilometers] km by simp
  show ?thesis
    using a b c d km formatDistance_examples by simp
qed

text \<open>
  The claim as the specification words it has feet below one mile: half a mile is
  below one unit and is rendered in miles.
\<close>

theorem formatDistance_half_mile_counterexample:
  "(0 :: real) \<le> 1 / 2 \<and> (1 / 2 :: real) < 1 \<and> formatDistance (1 / 2) UnitMiles = ''0.5mi''"
  by (simp add: formatDistance_examples)

lemma unlines_append: "unlines (xs @ ys) = unlines xs @ unlines ys"
  by (simp add: unlines_def)

lemma writeSteps_lines:
  "writeSteps result i steps out =
     out @ unlines (concat (map (stepLines result) (enumerate i steps)))"
proof (induction steps arbitrary: i out)
  case Nil
  then show ?case by (simp add: unlines_def)
next
  case (Cons step steps)
  have cond: "(int i < int (length (rs_Steps result)) - 1) = (Suc i < length (rs_Steps result))"
    by auto
  show ?case
    by (simp add: Cons.IH Let_def stepLines_def unlines_def cond)
qed

lemma digitChar_no_newline: "digitChar d \<noteq> newline"
  by (simp add: digitChar_def newline_def)

lemma showNat_no_newline: "newline \<notin> set (showNat n)"
proof (induction n rule: showNat.induct)
  case (1 n)
  show ?case
  proof (cases "n < 10")
    case True
    then show ?thesis
      by (subst showNat.simps) (simp add: digitChar_no_newline [symmetric])
  next
    case False
    with "1" show ?thesis
      by (subst showNat.simps) (simp add: digitChar_no_newline [symmetric])
  qed
qed

lemma showInt_no_newline: "newline \<notin> set (showInt i)"
  using showNat_no_newline by (simp add: showInt_def newline_def)

lemma padDigits_no_newline: "newline \<notin> set (padDigits p n)"
  by (induction p arbitrary: n) (simp_all add: digitChar_no_newline [symmetric])

lemma sprintf_f_no_newline: "newline \<notin> set (sprintf_f prec x)"
  using showNat_no_newline padDigits_no_newline
  by (simp add: sprintf_f_def Let_def newline_def)

lemma formatDistance_no_newline: "newline \<notin> set (formatDistance d u)"
  using sprintf_f_no_newline by (simp add: formatDistance_def newline_def)

lemma formatDuration_no_newline: "newline \<notin> set (formatDuration s)"
  using showInt_no_newline by (simp add: formatDuration_def Let_def newline_def)

lemma Split_line: "sep \<notin> set s \<Longrightarrow> Split (s @ sep # rest) sep = s # Split rest sep"
  by (induction s) auto

lemma Split_unlines:
  "\<forall>l \<in> set ls. newline \<notin> set l \<Longrightarrow> Split (unlines ls) newline = ls @ [[]]"
proof (induction ls)
  case Nil
  then show ?case by (simp add: unlines_def)
next
  case (Cons l ls)
  then have l: "newline \<notin> set l" and rest: "Split (unlines ls) newline = ls @ [[]]"
    by simp_all
  have "unlines (l # ls) = l @ newline # unlines ls"
    by (simp add: unlines_def)
  with Split_line [OF l, of "unlines ls"] rest show ?case by simp
qed

lemma stepLines_no_newline:
  assumes "newline \<notin> set (st_Icon (snd p))" and "newline \<notin> set (st_Description (snd p))"
  shows "\<forall>l \<in> set (stepLines result p). newline \<notin> set l"
  using assms formatDistance_no_newline by (simp add: stepLines_def newline_def)

text \<open>
  C8, as the code has it. The text of a successful plain-text response is the formatted
  duration, the formatted distance, the number of steps, and then for every step, in
  order, its icon and its description, each of these ended by a newline; the
  description of every step but the last of a route whose mode is not transit is
  followed by a space and the formatted step distance in parentheses. The first three
  lines of the text are always the duration, the distance and the number of steps. When
  no icon and no description holds a newline, the lines of the text are exactly these,
  two for each step.
\<close>

theorem plain_text_route_lines:
  "writePlainTextRoute result =
     \<lparr>StatusCode = 200, ContentType = ''text/plain'',
      Payload = PlainText
        (unlines ([formatDuration (rs_Duration result),
                   formatDistance (rs_Distance result) (rs_Units result),
                   showInt (int (length (rs_Steps result)))] @
                  concat (map (stepLines result) (enumerate 0 (rs_Steps result)))))\<rparr>
   \<and> (\<exists>rest. Split (unlines ([formatDuration (rs_Duration result),
                   formatDistance (rs_Distance result) (rs_Units result),
                   showInt (int (length (rs_Steps result)))] @
                  concat (map (stepLines result) (enumerate 0 (rs_Steps result))))) newline =
          formatDuration (rs_Duration result) #
          formatDistance (rs_Distance result) (rs_Units result) #
          showInt (int (length (rs_Steps result))) # rest)
   \<and> ((\<forall>step \<in> set (rs_Steps result).
          newline \<notin> set (st_Icon step) \<and> newline \<notin> set (st_Description step)) \<longrightarrow>
       Split (unlines ([formatDuration (rs_Duration result),
                   formatDistance (rs_Distance result) (rs_Units result),
                   showInt (int (length (rs_Steps result)))] @
                  concat (map (stepLines result) (enumerate 0 (rs_Steps result))))) newline =
         ([formatDuration (rs_Duration result),
           formatDistance (rs_Distance result) (rs_Units result),
           showInt (int (length (rs_Steps result)))] @
          concat (map (stepLines result) (enumerate 0 (rs_Steps result)))) @ [[]])"
proof (intro conjI impI)
  show "writePlainTextRoute result =
     \<lparr>StatusCode = 200, ContentType = ''text/plain'',
      Payload = PlainText
        (unlines ([formatDuration (rs_Duration result),
                   formatDistance (rs_Distance result) (rs_Units result),
                   showInt (int (length (rs_Steps result)))] @
                  concat (map (stepLines result) (enumerate 0 (rs_Steps result)))))\<rparr>"
    by (simp add: writePlainTextRoute_def writeSteps_lines unlines_def)
next
  let ?steps = "concat (map (stepLines result) (enumerate 0 (rs_Steps result)))"
  let ?a = "formatDuration (rs_Duration result)"
  let ?b = "formatDistance (rs_Distance result) (rs_Units result)"
  let ?c = "showInt (int (length (rs_Steps result)))"
  have u: "unlines ([?a, ?b, ?c] @ ?steps) = ?a @ newline # (?b @ newline # (?c @ newline # unlines ?steps))"
    by (simp add: unlines_def)
  have "Split (unlines ([?a, ?b, ?c] @ ?steps)) newline = ?a # ?b # ?c # Split (unlines ?steps) newline"
    unfolding u
    by (simp add: Split_line formatDuration_no_newline formatDistance_no_newline showInt_no_newline)
  then show "\<exists>rest. Split (unlines ([?a, ?b, ?c] @ ?steps)) newline = ?a # ?b # ?c # rest"
    by blast
next
  assume clean: "\<forall>step \<in> set (rs_Steps result).
      newline \<notin> set (st_Icon step) \<and> newline \<notin> set (st_Description step)"
  let ?steps = "concat (map (stepLines result) (enumerate 0 (rs_Steps result)))"
  let ?a = "formatDuration (rs_Duration result)"
  let ?b = "formatDistance (rs_Distance result) (rs_Units result)"
  let ?c = "showInt (int (length (rs_Steps result)))"
  have "\<forall>p \<in> set (enumerate 0 (rs_Steps result)). \<forall>l \<in> set (stepLines result p). newline \<notin> set l"
  proof
    fix p assume "p \<in> set (enumerate 0 (rs_Steps result))"
    then have "snd p \<in> snd ` set (enumerate 0 (rs_Steps result))"
      by (rule imageI)
    moreover have "snd ` set (enumerate 0 (rs_Steps result)) = set (rs_Steps result)"
      by (metis set_map map_snd_enumerate)
    ultimately have "snd p \<in> set (rs_Steps result)"
      by simp
    with clean show "\<forall>l \<in> set (stepLines result p). newline \<notin> set l"
      by (intro stepLines_no_newline) auto
  qed
  then have "\<forall>l \<in> set ([?a, ?b, ?c] @ ?steps). newline \<notin> set l"
    by (auto simp: formatDuration_no_newline formatDistance_no_newline showInt_no_newline)
  from Split_unlines [OF this]
  show "Split (unlines ([?a, ?b, ?c] @ ?steps)) newline = ([?a, ?b, ?c] @ ?steps) @ [[]]"
    .
qed

lemma driveResult_lines:
  "[formatDuration (rs_Duration driveResult),
    formatDistance (rs_Distance driveResult) (rs_Units driveResult),
    showInt (int (length (rs_Steps driveResult)))] @
   concat (map (stepLines driveResult) (enumerate 0 (rs_Steps driveResult))) =
     [''10min'', ''3.2km'', ''2'', ''Drive'', ''Drive north (1.0km)'', [], ''Arrive at destination'']"
  by code_simp

theorem plain_text_route_lines_witness:
  "list_all (\<lambda>step. newline \<notin> set (st_Icon step) \<and> newline \<notin> set (st_Description step))
     (rs_Steps driveResult)
   \<and> Split (unlines [''10min'', ''3.2km'', ''2'', ''Drive'', ''Drive north (1.0km)'', [],
                     ''Arrive at destination'']) newline =
       [''10min'', ''3.2km'', ''2'', ''Drive'', ''Drive north (1.0km)'', [],
        ''Arrive at destination'', []]
   \<and> writePlainTextRoute driveResult =
       \<lparr>StatusCode = 200, ContentType = ''text/plain'',
        Payload = PlainText
          (unlines [''10min'', ''3.2km'', ''2'', ''Drive'', ''Drive north (1.0km)'', [],
                    ''Arrive at destination''])\<rparr>"
proof -
  have clean: "\<forall>step \<in> set (rs_Steps driveResult).
      newline \<notin> set (st_Icon step) \<and> newline \<notin> set (st_Description step)"
    by (simp add: driveResult_def newline_def)
  note th = plain_text_route_lines [of driveResult, unfolded driveResult_lines]
  from th [THEN conjunct2, THEN conjunct2] clean
  have "Split (unlines [''10min'', ''3.2km'', ''2'', ''Drive'', ''Drive north (1.0km)'', [],
                     ''Arrive at destination'']) newline =
       [''10min'', ''3.2km'', ''2'', ''Drive'', ''Drive north (1.0km)'', [],
        ''Arrive at destination''] @ [[]]"
    by (rule mp)
  with th [THEN conjunct1] clean show ?thesis by (simp add: list_all_iff)
qed

text \<open>
  The claim as the specification words it gives every step exactly two lines: the step
  of a trip whose instruction holds a line break takes three, the icon and two lines of
  description.
\<close>

theorem step_with_line_break_counterexample:
  "responseText (fst (HandleRoute twoLineEnv goodPost noCalls)) =
     Some (unlines [''10min'', ''3.2km'', ''1'', ''Drive'', ''Turn left'', ''then right''])
   \<and> Split (unlines [''10min'', ''3.2km'', ''1'', ''Drive'', ''Turn left'', ''then right'']) newline =
       [''10min'', ''3.2km'', ''1'', ''Drive'', ''Turn left'', ''then right'', []]"
  by code_simp

section \<open>Properties of the handler\<close>

lemma HandleRoute_POST:
  assumes "Method r = ''POST''"
  shows "HandleRoute e r w =
     (case Body r of
        None \<Rightarrow> (Some (writePlainTextError ''failed to read request body''), w)
      | Some body \<Rightarrow>
          (let lines = Split (TrimSpace body) newline
           in if length lines < 5
              then (Some (writePlainTextError ''request must contain at least 5 lines''), w)
              else
                (case parseLatLng e (lineField lines 3) of
                   Inl err \<Rightarrow> (Some (writePlainTextError ''invalid 'from' coordinates''), w)
                 | Inr (fromLat, fromLng) \<Rightarrow>
                     (case parseLatLng e (lineField lines 4) of
                        Inl err \<Rightarrow> (Some (writePlainTextError ''invalid 'to' coordinates''), w)
                      | Inr (toLat, toLng) \<Rightarrow>
                          (case route e (postRouteRequest lines fromLat fromLng toLat toLng) w of
                             (Inl Panicked, w') \<Rightarrow> (None, w')
                           | (Inl (Err message), w') \<Rightarrow> (Some (writePlainTextError message), w')
                           | (Inr result, w') \<Rightarrow> (Some (writePlainTextRoute result), w'))))))"
  using assms by (simp add: HandleRoute_def)

lemma Split_no_separator: "sep \<notin> set s \<Longrightarrow> Split s sep = [s]"
  by (induction s) auto

lemma Split_append:
  "sep \<notin> set s \<Longrightarrow> Split (s @ sep # rest) sep = s # Split rest sep"
  by (induction s) auto

lemma stub_lines:
  assumes "newline \<notin> set message"
  shows "Split ([newline, newline] @ ''0'' @ [newline] @ message @ [newline]) newline =
           [[], [], ''0'', message, []]"
proof -
  have "Split (message @ newline # []) newline = message # Split [] newline"
    using assms by (rule Split_append)
  then show ?thesis
    by (simp add: newline_def)
qed

text \<open>
  C7, as the code has it. A plain-text (POST) request that fails is answered with two
  empty lines, the line \<open>0\<close> and the error message, each ended by a newline, whatever
  the failure: the body cannot be read, it has fewer than five lines, the origin or the
  destination is no coordinate pair, or \<open>route\<close> returns an error. A message without
  a newline makes that exactly four lines.
\<close>

theorem post_failure_is_stub:
  assumes "Method r = ''POST''"
  shows "(Body r = None \<longrightarrow>
            HandleRoute e r w = (Some (writePlainTextError ''failed to read request body''), w))
       \<and> (Body r = Some body \<and> length (Split (TrimSpace body) newline) < 5 \<longrightarrow>
            HandleRoute e r w = (Some (writePlainTextError ''request must contain at least 5 lines''), w))
       \<and> (Body r = Some body \<and> 5 \<le> length (Split (TrimSpace body) newline) \<and>
           parseLatLng e (lineField (Split (TrimSpace body) newline) 3) = Inl err \<longrightarrow>
            HandleRoute e r w = (Some (writePlainTextError ''invalid 'from' coordinates''), w))
       \<and> (Body r = Some body \<and> 5 \<le> length (Split (TrimSpace body) newline) \<and>
           parseLatLng e (lineField (Split (TrimSpace body) newline) 3) = Inr (fromLat, fromLng) \<and>
           parseLatLng e (lineField (Split (TrimSpace body) newline) 4) = Inl err \<longrightarrow>
            HandleRoute e r w = (Some (writePlainTextError ''invalid 'to' coordinates''), w))
       \<and> (Body r = Some body \<and> 5 \<le> length (Split (TrimSpace body) newline) \<and>
           parseLatLng e (lineField (Split (TrimSpace body) newline) 3) = Inr (fromLat, fromLng) \<and>
           parseLatLng e (lineField (Split (TrimSpace body) newline) 4) = Inr (toLat, toLng) \<and>
           route e (postRouteRequest (Split (TrimSpace body) newline) fromLat fromLng toLat toLng) w =
             (Inl (Err message), w') \<longrightarrow>
            HandleRoute e r w = (Some (writePlainTextError message), w'))
       \<and> writePlainTextError message =
            \<lparr>StatusCode = 200, ContentType = ''text/plain'',
             Payload = PlainText (newline # newline # CHR ''0'' # newline # message @ [newline])\<rparr>
       \<and> (newline \<notin> set message \<longrightarrow>
            Split (newline # newline # CHR ''0'' # newline # message @ [newline]) newline =
              [[], [], ''0'', message, []])"
proof (intro conjI impI)
  show "writePlainTextError message =
      \<lparr>StatusCode = 200, ContentType = ''text/plain'',
       Payload = PlainText (newline # newline # CHR ''0'' # newline # message @ [newline])\<rparr>"
    by (simp add: writePlainTextError_def)
next
  assume "newline \<notin> set message"
  from stub_lines [OF this]
  show "Split (newline # newline # CHR ''0'' # newline # message @ [newline]) newline =
      [[], [], ''0'', message, []]"
    by simp
qed (simp_all add: HandleRoute_POST [OF assms] Let_def)

lemma badFromPost_lines:
  "Split (TrimSpace (''auto'' @ [newline] @ ''us'' @ [newline] @ ''km'' @ [newline] @ ''abc'' @
                     [newline] @ ''41,41'')) newline =
     [''auto'', ''us'', ''km'', ''abc'', ''41,41'']"
  by code_simp

lemma goodPost_lines:
  "Split (TrimSpace (''auto'' @ [newline] @ ''ca'' @ [newline] @ ''km'' @ [newline] @ ''40,40'' @
                     [newline] @ ''41,41'')) newline =
     [''auto'', ''ca'', ''km'', ''40,40'', ''41,41'']"
  by code_simp

lemma goodPost_fields:
  "lineField [''auto'', ''ca'', ''km'', ''40,40'', ''41,41''] 3 = ''40,40''"
  "lineField [''auto'', ''ca'', ''km'', ''40,40'', ''41,41''] 4 = ''41,41''"
  "lineField [''auto'', ''us'', ''km'', ''abc'', ''41,41''] 3 = ''abc''"
  by code_simp+

lemma goodPost_request:
  "postRouteRequest [''auto'', ''ca'', ''km'', ''40,40'', ''41,41''] 40 40 41 41 =
     \<lparr>rq_FromLat = 40, rq_FromLng = 40, rq_ToLat = 41, rq_ToLng = 41,
      rq_FromDesc = [], rq_ToDesc = [], rq_Mode = ''auto'', rq_Units = ''km'',
      rq_Country = ''ca''\<rparr>"
  by code_simp

lemma parseLatLng_examples:
  "parseLatLng downEnv ''40,40'' = Inr (40, 40)"
  "parseLatLng downEnv ''41,41'' = Inr (41, 41)"
  "parseLatLng downEnv ''abc'' = Inl ''invalid lat,lng format''"
  by code_simp+

lemma route_downEnv:
  "fst (route downEnv
          \<lparr>rq_FromLat = 40, rq_FromLng = 40, rq_ToLat = 41, rq_ToLng = 41,
           rq_FromDesc = [], rq_ToDesc = [], rq_Mode = ''auto'', rq_Units = ''km'',
           rq_Country = ''ca''\<rparr> noCalls) =
     Inl (Err ''error making request to Valhalla: connection refused'')"
proof -
  let ?req = "\<lparr>rq_FromLat = 40, rq_FromLng = 40, rq_ToLat = 41, rq_ToLng = 41,
           rq_FromDesc = [], rq_ToDesc = [], rq_Mode = ''auto'', rq_Units = ''km'',
           rq_Country = ''ca''\<rparr>"
  have "route downEnv ?req noCalls =
      (surfaced ?req (valhalla downEnv (length (valhallaLog noCalls)) (valhallaRequestOf downEnv ?req)),
       noCalls\<lparr>valhallaLog := valhallaLog noCalls @ [valhallaRequestOf downEnv ?req]\<rparr>)"
    by (rule route_without_fallback)
       (simp_all add: ModeTransit_def UnitIsValid_def UnitKilometers_def)
  then show ?thesis
    by (simp add: downEnv_def surfaced_def)
qed

theorem post_failure_is_stub_witness:
  "fst (HandleRoute downEnv unreadablePost noCalls) =
     Some \<lparr>StatusCode = 200, ContentType = ''text/plain'',
           Payload = PlainText (newline # newline # CHR ''0'' # newline #
                                ''failed to read request body'' @ [newline])\<rparr>
   \<and> fst (HandleRoute downEnv shortPost noCalls) =
     Some \<lparr>StatusCode = 200, ContentType = ''text/plain'',
           Payload = PlainText (newline # newline # CHR ''0'' # newline #
                                ''request must contain at least 5 lines'' @ [newline])\<rparr>
   \<and> fst (HandleRoute downEnv badFromPost noCalls) =
     Some \<lparr>StatusCode = 200, ContentType = ''text/plain'',
           Payload = PlainText (newline # newline # CHR ''0'' # newline #
                                ''invalid 'from' coordinates'' @ [newline])\<rparr>
   \<and> fst (HandleRoute downEnv goodPost noCalls) =
     Some \<lparr>StatusCode = 200, ContentType = ''text/plain'',
           Payload = PlainText (newline # newline # CHR ''0'' # newline #
                                ''error making request to Valhalla: connection refused'' @ [newline])\<rparr>
   \<and> Split (newline # newline # CHR ''0'' # newline #
             ''error making request to Valhalla: connection refused'' @ [newline]) newline =
       [[], [], ''0'', ''error making request to Valhalla: connection refused'', []]"
proof -
  let ?good = "''auto'' @ [newline] @ ''ca'' @ [newline] @ ''km'' @ [newline] @ ''40,40'' @
               [newline] @ ''41,41''"
  let ?bad = "''auto'' @ [newline] @ ''us'' @ [newline] @ ''km'' @ [newline] @ ''abc'' @
              [newline] @ ''41,41''"
  let ?req = "\<lparr>rq_FromLat = 40, rq_FromLng = 40, rq_ToLat = 41, rq_ToLng = 41,
           rq_FromDesc = [], rq_ToDesc = [], rq_Mode = ''auto'', rq_Units = ''km'',
           rq_Country = ''ca''\<rparr>"
  let ?msg = "''error making request to Valhalla: connection refused''"
  have shape: "\<And>m. writePlainTextError m =
      \<lparr>StatusCode = 200, ContentType = ''text/plain'',
       Payload = PlainText (newline # newline # CHR ''0'' # newline # m @ [newline])\<rparr>"
    by (simp add: writePlainTextError_def)
  have m1: "Method unreadablePost = ''POST''" by (simp add: unreadablePost_def)
  have m2: "Method shortPost = ''POST''" by (simp add: shortPost_def)
  have m3: "Method badFromPost = ''POST''" by (simp add: badFromPost_def)
  have m4: "Method goodPost = ''POST''" by (simp add: goodPost_def)
  have p1: "Body unreadablePost = None" by (simp add: unreadablePost_def)
  from post_failure_is_stub [OF m1, where e = downEnv and w = noCalls, THEN conjunct1] p1
  have a: "HandleRoute downEnv unreadablePost noCalls =
      (Some (writePlainTextError ''failed to read request body''), noCalls)"
    by (rule mp)
  have l2: "Split (TrimSpace ''auto'') newline = [''auto'']" by code_simp
  have p2: "Body shortPost = Some ''auto'' \<and> length (Split (TrimSpace ''auto'') newline) < 5"
    unfolding l2 by (simp add: shortPost_def)
  from post_failure_is_stub [OF m2, where e = downEnv and w = noCalls and body = "''auto''",
      THEN conjunct2, THEN conjunct1] p2
  have b: "HandleRoute downEnv shortPost noCalls =
      (Some (writePlainTextError ''request must contain at least 5 lines''), noCalls)"
    by (rule mp)
  have b3: "Body badFromPost = Some ?bad" by (simp add: badFromPost_def)
  have p3: "Body badFromPost = Some ?bad \<and> 5 \<le> length (Split (TrimSpace ?bad) newline) \<and>
      parseLatLng downEnv (lineField (Split (TrimSpace ?bad) newline) 3) = Inl ''invalid lat,lng format''"
    unfolding badFromPost_lines goodPost_fields parseLatLng_examples using b3 by simp
  from post_failure_is_stub [OF m3, where e = downEnv and w = noCalls and body = ?bad
      and err = "''invalid lat,lng format''", THEN conjunct2, THEN conjunct2, THEN conjunct1] p3
  have c: "HandleRoute downEnv badFromPost noCalls =
      (Some (writePlainTextError ''invalid 'from' coordinates''), noCalls)"
    by (rule mp)
  have rt: "route downEnv ?req noCalls = (Inl (Err ?msg), snd (route downEnv ?req noCalls))"
    using route_downEnv by (simp add: prod_eq_iff)
  have b4: "Body goodPost = Some ?good" by (simp add: goodPost_def)
  have p4: "Body goodPost = Some ?good \<and> 5 \<le> length (Split (TrimSpace ?good) newline) \<and>
      parseLatLng downEnv (lineField (Split (TrimSpace ?good) newline) 3) = Inr (40, 40) \<and>
      parseLatLng downEnv (lineField (Split (TrimSpace ?good) newline) 4) = Inr (41, 41) \<and>
      route downEnv (postRouteRequest (Split (TrimSpace ?good) newline) 40 40 41 41) noCalls =
        (Inl (Err ?msg), snd (route downEnv ?req noCalls))"
    unfolding goodPost_lines goodPost_fields parseLatLng_examples goodPost_request
    using b4 rt by simp
  from post_failure_is_stub [OF m4, where e = downEnv and w = noCalls and body = ?good
      and fromLat = 40 and fromLng = 40 and toLat = 41 and toLng = 41 and message = ?msg
      and w' = "snd (route downEnv ?req noCalls)",
      THEN conjunct2, THEN conjunct2, THEN conjunct2, THEN conjunct2, THEN conjunct1] p4
  have d: "HandleRoute downEnv goodPost noCalls =
      (Some (writePlainTextError ?msg), snd (route downEnv ?req noCalls))"
    by (rule mp)
  have p5: "newline \<notin> set ?msg" by (simp add: newline_def)
  from post_failure_is_stub [OF m4, where message = ?msg,
      THEN conjunct2, THEN conjunct2, THEN conjunct2, THEN conjunct2, THEN conjunct2,
      THEN conjunct2] p5
  have e: "Split (newline # newline # CHR ''0'' # newline # ?msg @ [newline]) newline =
      [[], [], ''0'', ?msg, []]"
    by (rule mp)
  show ?thesis
    unfolding a b c d shape fst_conv using e by simp
qed

text \<open>
  The claim as the specification words it has exactly four lines for every failure: a
  routing error that quotes the two-line body of a proxy's error page makes five.
\<close>

theorem post_failure_five_lines_counterexample:
  "responseText (fst (HandleRoute gatewayEnv goodPost noCalls)) =
     Some (newline # newline # CHR ''0'' # newline #
           ''valhalla API returned status 502: Bad Gateway'' @ [newline] @ ''nginx'' @ [newline])
   \<and> Split (newline # newline # CHR ''0'' # newline #
           ''valhalla API returned status 502: Bad Gateway'' @ [newline] @ ''nginx'' @ [newline])
        newline =
       [[], [], ''0'', ''valhalla API returned status 502: Bad Gateway'', ''nginx'', []]"
  by code_simp

lemma HandleRoute_GET:
  assumes "Method r = ''GET''"
  shows "HandleRoute e r w =
     (if QueryGet r ''from'' = [] \<or> QueryGet r ''to'' = []
      then (Some (writeError 400 ''both 'from' and 'to' parameters are required''), w)
      else if ToLower (QueryGet r ''country'') \<noteq> [] \<and> \<not> CountryIsValid (ToLower (QueryGet r ''country''))
      then (Some (writeError 400 ''country must be a valid 2-letter ISO code in lowercase''), w)
      else if QueryGet r ''mode'' \<noteq> [] \<and> \<not> ModeIsValid (ToLower (QueryGet r ''mode''))
      then (Some (writeError 400 (''invalid mode. Must be one of: '' @ ModeWalking @ '', '' @
                    ModeBiking @ '', '' @ ModeAuto @ '', '' @ ModeTransit)), w)
      else if QueryGet r ''units'' \<noteq> [] \<and> \<not> UnitIsValid (ToLower (QueryGet r ''units''))
      then (Some (writeError 400 (''invalid units. Must be one of: '' @ UnitKilometers @ '', '' @
                    UnitMiles)), w)
      else
        (case parseLatLng e (QueryGet r ''from'') of
           Inl err \<Rightarrow> (Some (writeError 400 (''invalid 'from' parameter: '' @ err)), w)
         | Inr (fromLat, fromLng) \<Rightarrow>
             (case parseLatLng e (QueryGet r ''to'') of
                Inl err \<Rightarrow> (Some (writeError 400 (''invalid 'to' parameter: '' @ err)), w)
              | Inr (toLat, toLng) \<Rightarrow>
                  handleRouteRequest e ''GET'' fromLat fromLng toLat toLng
                    (if QueryGet r ''mode'' = [] then DefaultMode else ToLower (QueryGet r ''mode''))
                    (if QueryGet r ''units'' = [] then DefaultUnit else ToLower (QueryGet r ''units''))
                    (ToLower (QueryGet r ''country'')) (QueryGet r ''fromDesc'')
                    (QueryGet r ''toDesc'') w)))"
  using assms by (auto simp: HandleRoute_def Let_def split: sum.splits prod.splits)

lemma DefaultMode_valid: "ModeIsValid DefaultMode"
  by (simp add: ModeIsValid_def DefaultMode_def)

lemma DefaultUnit_valid: "UnitIsValid DefaultUnit"
  by (simp add: UnitIsValid_def DefaultUnit_def)

lemma postRouteRequest_mode:
  "rq_Mode (postRouteRequest lines a b c d) =
     (if ModeIsValid (ToLower (lineField lines 0)) then ToLower (lineField lines 0) else DefaultMode)"
  by (simp add: postRouteRequest_def Let_def)

lemma postRouteRequest_units:
  "rq_Units (postRouteRequest lines a b c d) =
     (if UnitIsValid (ToLower (lineField lines 2)) then ToLower (lineField lines 2) else DefaultUnit)"
  by (simp add: postRouteRequest_def Let_def)

text \<open>
  C6, as the code has it. On GET, a mode or a unit that is given and is, in lower case,
  no value of its enumeration is answered with status 400 and an error object, and no
  backend is called; a request that passes the checks reaches \<open>route\<close> with a valid
  mode and a valid unit (the default for one that is not given). On POST nothing is
  rejected for its mode or unit: a token that is no value of the enumeration is
  replaced by the default (auto, km), \<open>route\<close> is called with the request so built,
  and its result is the response. On either verb \<open>route\<close> gets valid values only.
\<close>

theorem invalid_mode_or_unit_at_the_boundary:
  "(Method r = ''GET'' \<and>
      ((QueryGet r ''mode'' \<noteq> [] \<and> \<not> ModeIsValid (ToLower (QueryGet r ''mode''))) \<or>
       (QueryGet r ''units'' \<noteq> [] \<and> \<not> UnitIsValid (ToLower (QueryGet r ''units'')))) \<longrightarrow>
      (\<exists>message. HandleRoute e r w =
         (Some \<lparr>StatusCode = 400, ContentType = ''application/json'', Payload = JSONError message\<rparr>, w)))
   \<and> (Method r = ''GET'' \<and> QueryGet r ''from'' \<noteq> [] \<and> QueryGet r ''to'' \<noteq> [] \<and>
       (ToLower (QueryGet r ''country'') = [] \<or> CountryIsValid (ToLower (QueryGet r ''country''))) \<and>
       (QueryGet r ''mode'' = [] \<or> ModeIsValid (ToLower (QueryGet r ''mode''))) \<and>
       (QueryGet r ''units'' = [] \<or> UnitIsValid (ToLower (QueryGet r ''units''))) \<and>
       parseLatLng e (QueryGet r ''from'') = Inr (gfromLat, gfromLng) \<and>
       parseLatLng e (QueryGet r ''to'') = Inr (gtoLat, gtoLng) \<longrightarrow>
      HandleRoute e r w =
        handleRouteRequest e ''GET'' gfromLat gfromLng gtoLat gtoLng
          (if QueryGet r ''mode'' = [] then DefaultMode else ToLower (QueryGet r ''mode''))
          (if QueryGet r ''units'' = [] then DefaultUnit else ToLower (QueryGet r ''units''))
          (ToLower (QueryGet r ''country'')) (QueryGet r ''fromDesc'') (QueryGet r ''toDesc'') w
      \<and> ModeIsValid (if QueryGet r ''mode'' = [] then DefaultMode else ToLower (QueryGet r ''mode''))
      \<and> UnitIsValid (if QueryGet r ''units'' = [] then DefaultUnit else ToLower (QueryGet r ''units'')))
   \<and> (Method r = ''POST'' \<and> Body r = Some body \<and> 5 \<le> length (Split (TrimSpace body) newline) \<and>
       parseLatLng e (lineField (Split (TrimSpace body) newline) 3) = Inr (fromLat, fromLng) \<and>
       parseLatLng e (lineField (Split (TrimSpace body) newline) 4) = Inr (toLat, toLng) \<longrightarrow>
      snd (HandleRoute e r w) =
        snd (route e (postRouteRequest (Split (TrimSpace body) newline) fromLat fromLng toLat toLng) w)
      \<and> (\<forall>result. fst (route e (postRouteRequest (Split (TrimSpace body) newline)
                                 fromLat fromLng toLat toLng) w) = Inr result \<longrightarrow>
            fst (HandleRoute e r w) = Some (writePlainTextRoute result)))
   \<and> ModeIsValid (rq_Mode (postRouteRequest lines fromLat fromLng toLat toLng))
   \<and> UnitIsValid (rq_Units (postRouteRequest lines fromLat fromLng toLat toLng))
   \<and> (\<not> ModeIsValid (ToLower (lineField lines 0)) \<longrightarrow>
        rq_Mode (postRouteRequest lines fromLat fromLng toLat toLng) = DefaultMode)
   \<and> (\<not> UnitIsValid (ToLower (lineField lines 2)) \<longrightarrow>
        rq_Units (postRouteRequest lines fromLat fromLng toLat toLng) = DefaultUnit)"
proof (intro conjI impI)
  assume g: "Method r = ''GET'' \<and>
      ((QueryGet r ''mode'' \<noteq> [] \<and> \<not> ModeIsValid (ToLower (QueryGet r ''mode''))) \<or>
       (QueryGet r ''units'' \<noteq> [] \<and> \<not> UnitIsValid (ToLower (QueryGet r ''units''))))"
  then have m: "Method r = ''GET''" by blast
  from g show "\<exists>message. HandleRoute e r w =
      (Some \<lparr>StatusCode = 400, ContentType = ''application/json'', Payload = JSONError message\<rparr>, w)"
    by (auto simp: HandleRoute_GET [OF m] writeError_def)
next
  assume g: "Method r = ''GET'' \<and> QueryGet r ''from'' \<noteq> [] \<and> QueryGet r ''to'' \<noteq> [] \<and>
       (ToLower (QueryGet r ''country'') = [] \<or> CountryIsValid (ToLower (QueryGet r ''country''))) \<and>
       (QueryGet r ''mode'' = [] \<or> ModeIsValid (ToLower (QueryGet r ''mode''))) \<and>
       (QueryGet r ''units'' = [] \<or> UnitIsValid (ToLower (QueryGet r ''units''))) \<and>
       parseLatLng e (QueryGet r ''from'') = Inr (gfromLat, gfromLng) \<and>
       parseLatLng e (QueryGet r ''to'') = Inr (gtoLat, gtoLng)"
  then have m: "Method r = ''GET''" by blast
  from g show "HandleRoute e r w =
        handleRouteRequest e ''GET'' gfromLat gfromLng gtoLat gtoLng
          (if QueryGet r ''mode'' = [] then DefaultMode else ToLower (QueryGet r ''mode''))
          (if QueryGet r ''units'' = [] then DefaultUnit else ToLower (QueryGet r ''units''))
          (ToLower (QueryGet r ''country'')) (QueryGet r ''fromDesc'') (QueryGet r ''toDesc'') w"
    by (auto simp: HandleRoute_GET [OF m])
  from g show "ModeIsValid (if QueryGet r ''mode'' = [] then DefaultMode else ToLower (QueryGet r ''mode''))"
    by (auto simp: DefaultMode_valid)
  from g show "UnitIsValid (if QueryGet r ''units'' = [] then DefaultUnit else ToLower (QueryGet r ''units''))"
    by (auto simp: DefaultUnit_valid)
next
  assume p: "Method r = ''POST'' \<and> Body r = Some body \<and> 5 \<le> length (Split (TrimSpace body) newline) \<and>
       parseLatLng e (lineField (Split (TrimSpace body) newline) 3) = Inr (fromLat, fromLng) \<and>
       parseLatLng e (lineField (Split (TrimSpace body) newline) 4) = Inr (toLat, toLng)"
  then have m: "Method r = ''POST''" by blast
  from p show "snd (HandleRoute e r w) =
      snd (route e (postRouteRequest (Split (TrimSpace body) newline) fromLat fromLng toLat toLng) w)"
    by (auto simp: HandleRoute_POST [OF m] Let_def split: prod.splits sum.splits failure.splits)
  from p show "\<forall>result. fst (route e (postRouteRequest (Split (TrimSpace body) newline)
                                 fromLat fromLng toLat toLng) w) = Inr result \<longrightarrow>
            fst (HandleRoute e r w) = Some (writePlainTextRoute result)"
    by (auto simp: HandleRoute_POST [OF m] Let_def split: prod.splits sum.splits failure.splits)
qed (simp_all add: postRouteRequest_mode postRouteRequest_units DefaultMode_valid DefaultUnit_valid)

lemma hover_tokens:
  "\<not> ModeIsValid (ToLower ''hover'')"
  "\<not> UnitIsValid (ToLower ''yards'')"
  "ModeIsValid (ToLower ''AUTO'')"
  "ToLower ''AUTO'' = ''auto''"
  "ToLower [] = []"
  by code_simp+

lemma hoverPost_lines:
  "Split (TrimSpace (''hover'' @ [newline] @ ''ca'' @ [newline] @ ''yards'' @ [newline] @ ''40,40'' @
                     [newline] @ ''41,41'')) newline =
     [''hover'', ''ca'', ''yards'', ''40,40'', ''41,41'']"
  by code_simp

lemma hoverPost_fields:
  "lineField [''hover'', ''ca'', ''yards'', ''40,40'', ''41,41''] 0 = ''hover''"
  "lineField [''hover'', ''ca'', ''yards'', ''40,40'', ''41,41''] 2 = ''yards''"
  "lineField [''hover'', ''ca'', ''yards'', ''40,40'', ''41,41''] 3 = ''40,40''"
  "lineField [''hover'', ''ca'', ''yards'', ''40,40'', ''41,41''] 4 = ''41,41''"
  by code_simp+

lemma hoverPost_request:
  "postRouteRequest [''hover'', ''ca'', ''yards'', ''40,40'', ''41,41''] 40 40 41 41 =
     \<lparr>rq_FromLat = 40, rq_FromLng = 40, rq_ToLat = 41, rq_ToLng = 41,
      rq_FromDesc = [], rq_ToDesc = [], rq_Mode = ''auto'', rq_Units = ''km'',
      rq_Country = ''ca''\<rparr>"
  by code_simp

lemma parseLatLng_tripEnv:
  "parseLatLng tripEnv ''40,40'' = Inr (40, 40)"
  "parseLatLng tripEnv ''41,41'' = Inr (41, 41)"
  by code_simp+

lemma route_tripEnv_post:
  "\<exists>result. fst (route tripEnv
          \<lparr>rq_FromLat = 40, rq_FromLng = 40, rq_ToLat = 41, rq_ToLng = 41,
           rq_FromDesc = [], rq_ToDesc = [], rq_Mode = ''auto'', rq_Units = ''km'',
           rq_Country = ''ca''\<rparr> noCalls) = Inr result"
proof -
  let ?req = "\<lparr>rq_FromLat = 40, rq_FromLng = 40, rq_ToLat = 41, rq_ToLng = 41,
           rq_FromDesc = [], rq_ToDesc = [], rq_Mode = ''auto'', rq_Units = ''km'',
           rq_Country = ''ca''\<rparr>"
  have "route tripEnv ?req noCalls =
      (surfaced ?req (valhalla tripEnv (length (valhallaLog noCalls)) (valhallaRequestOf tripEnv ?req)),
       noCalls\<lparr>valhallaLog := valhallaLog noCalls @ [valhallaRequestOf tripEnv ?req]\<rparr>)"
    by (rule route_without_fallback)
       (simp_all add: ModeTransit_def UnitIsValid_def UnitKilometers_def)
  then show ?thesis
    by (simp add: tripEnv_def surfaced_def directResult_def twoLegTrip_def Let_def decodePolyline_def)
qed

theorem invalid_mode_or_unit_at_the_boundary_witness:
  "(\<exists>message. HandleRoute tripEnv hoverGet noCalls =
       (Some \<lparr>StatusCode = 400, ContentType = ''application/json'', Payload = JSONError message\<rparr>,
        noCalls))
   \<and> HandleRoute tripEnv driveGet noCalls =
       handleRouteRequest tripEnv ''GET'' 40 40 41 41 ''auto'' DefaultUnit [] [] [] noCalls
   \<and> (\<exists>result.
         fst (route tripEnv
                (postRouteRequest [''hover'', ''ca'', ''yards'', ''40,40'', ''41,41''] 40 40 41 41)
                noCalls) = Inr result
         \<and> fst (HandleRoute tripEnv hoverPost noCalls) = Some (writePlainTextRoute result))
   \<and> rq_Mode (postRouteRequest [''hover'', ''ca'', ''yards'', ''40,40'', ''41,41''] 40 40 41 41) =
       DefaultMode
   \<and> rq_Units (postRouteRequest [''hover'', ''ca'', ''yards'', ''40,40'', ''41,41''] 40 40 41 41) =
       DefaultUnit"
proof -
  let ?body = "''hover'' @ [newline] @ ''ca'' @ [newline] @ ''yards'' @ [newline] @ ''40,40'' @
               [newline] @ ''41,41''"
  let ?lines = "[''hover'', ''ca'', ''yards'', ''40,40'', ''41,41'']"
  have q1: "QueryGet hoverGet ''mode'' = ''hover''" by (simp add: hoverGet_def)
  have p1: "Method hoverGet = ''GET'' \<and>
      ((QueryGet hoverGet ''mode'' \<noteq> [] \<and> \<not> ModeIsValid (ToLower (QueryGet hoverGet ''mode''))) \<or>
       (QueryGet hoverGet ''units'' \<noteq> [] \<and> \<not> UnitIsValid (ToLower (QueryGet hoverGet ''units''))))"
    unfolding q1 using hover_tokens(1) by (simp add: hoverGet_def)
  from invalid_mode_or_unit_at_the_boundary [where r = hoverGet and e = tripEnv and w = noCalls,
      THEN conjunct1] p1
  have a: "\<exists>message. HandleRoute tripEnv hoverGet noCalls =
       (Some \<lparr>StatusCode = 400, ContentType = ''application/json'', Payload = JSONError message\<rparr>,
        noCalls)"
    by (rule mp)
  have q2: "QueryGet driveGet ''mode'' = ''AUTO''" "QueryGet driveGet ''units'' = []"
    "QueryGet driveGet ''from'' = ''40,40''" "QueryGet driveGet ''to'' = ''41,41''"
    "QueryGet driveGet ''country'' = []" "QueryGet driveGet ''fromDesc'' = []"
    "QueryGet driveGet ''toDesc'' = []" "Method driveGet = ''GET''"
    by (simp_all add: driveGet_def)
  have p2: "Method driveGet = ''GET'' \<and> QueryGet driveGet ''from'' \<noteq> [] \<and> QueryGet driveGet ''to'' \<noteq> [] \<and>
       (ToLower (QueryGet driveGet ''country'') = [] \<or> CountryIsValid (ToLower (QueryGet driveGet ''country''))) \<and>
       (QueryGet driveGet ''mode'' = [] \<or> ModeIsValid (ToLower (QueryGet driveGet ''mode''))) \<and>
       (QueryGet driveGet ''units'' = [] \<or> UnitIsValid (ToLower (QueryGet driveGet ''units''))) \<and>
       parseLatLng tripEnv (QueryGet driveGet ''from'') = Inr (40, 40) \<and>
       parseLatLng tripEnv (QueryGet driveGet ''to'') = Inr (41, 41)"
    unfolding q2 parseLatLng_tripEnv using hover_tokens by simp
  from invalid_mode_or_unit_at_the_boundary [where r = driveGet and e = tripEnv and w = noCalls
      and gfromLat = 40 and gfromLng = 40 and gtoLat = 41 and gtoLng = 41,
      THEN conjunct2, THEN conjunct1] p2
  have "HandleRoute tripEnv driveGet noCalls =
        handleRouteRequest tripEnv ''GET'' 40 40 41 41
          (if QueryGet driveGet ''mode'' = [] then DefaultMode else ToLower (QueryGet driveGet ''mode''))
          (if QueryGet driveGet ''units'' = [] then DefaultUnit else ToLower (QueryGet driveGet ''units''))
          (ToLower (QueryGet driveGet ''country'')) (QueryGet driveGet ''fromDesc'')
          (QueryGet driveGet ''toDesc'') noCalls
      \<and> ModeIsValid (if QueryGet driveGet ''mode'' = [] then DefaultMode else ToLower (QueryGet driveGet ''mode''))
      \<and> UnitIsValid (if QueryGet driveGet ''units'' = [] then DefaultUnit else ToLower (QueryGet driveGet ''units''))"
    by (rule mp)
  then have b: "HandleRoute tripEnv driveGet noCalls =
       handleRouteRequest tripEnv ''GET'' 40 40 41 41 ''auto'' DefaultUnit [] [] [] noCalls"
    unfolding q2 hover_tokens by simp
  have b3: "Body hoverPost = Some ?body" by (simp add: hoverPost_def)
  have p3: "Method hoverPost = ''POST'' \<and> Body hoverPost = Some ?body \<and>
       5 \<le> length (Split (TrimSpace ?body) newline) \<and>
       parseLatLng tripEnv (lineField (Split (TrimSpace ?body) newline) 3) = Inr (40, 40) \<and>
       parseLatLng tripEnv (lineField (Split (TrimSpace ?body) newline) 4) = Inr (41, 41)"
    unfolding hoverPost_lines hoverPost_fields parseLatLng_tripEnv
    using b3 by (simp add: hoverPost_def)
  from invalid_mode_or_unit_at_the_boundary [where r = hoverPost and e = tripEnv and w = noCalls
      and body = ?body and fromLat = 40 and fromLng = 40 and toLat = 41 and toLng = 41,
      THEN conjunct2, THEN conjunct2, THEN conjunct1] p3
  have "snd (HandleRoute tripEnv hoverPost noCalls) =
        snd (route tripEnv (postRouteRequest (Split (TrimSpace ?body) newline) 40 40 41 41) noCalls)
      \<and> (\<forall>result. fst (route tripEnv (postRouteRequest (Split (TrimSpace ?body) newline)
                                 40 40 41 41) noCalls) = Inr result \<longrightarrow>
            fst (HandleRoute tripEnv hoverPost noCalls) = Some (writePlainTextRoute result))"
    by (rule mp)
  then have all: "\<forall>result. fst (route tripEnv (postRouteRequest ?lines 40 40 41 41) noCalls) = Inr result \<longrightarrow>
            fst (HandleRoute tripEnv hoverPost noCalls) = Some (writePlainTextRoute result)"
    unfolding hoverPost_lines by blast
  obtain result where r: "fst (route tripEnv (postRouteRequest ?lines 40 40 41 41) noCalls) = Inr result"
    unfolding hoverPost_request using route_tripEnv_post by blast
  with all have c: "\<exists>result. fst (route tripEnv (postRouteRequest ?lines 40 40 41 41) noCalls) = Inr result
         \<and> fst (HandleRoute tripEnv hoverPost noCalls) = Some (writePlainTextRoute result)"
    by blast
  have n0: "\<not> ModeIsValid (ToLower (lineField ?lines 0))"
    unfolding hoverPost_fields by (rule hover_tokens)
  have n2: "\<not> UnitIsValid (ToLower (lineField ?lines 2))"
    unfolding hoverPost_fields by (rule hover_tokens)
  note rest = invalid_mode_or_unit_at_the_boundary [where lines = ?lines and fromLat = 40
      and fromLng = 40 and toLat = 41 and toLng = 41,
      THEN conjunct2, THEN conjunct2, THEN conjunct2, THEN conjunct2, THEN conjunct2]
  from rest [THEN conjunct1] n0
  have d: "rq_Mode (postRouteRequest ?lines 40 40 41 41) = DefaultMode"
    by (rule mp)
  from rest [THEN conjunct2] n2
  have e: "rq_Units (postRouteRequest ?lines 40 40 41 41) = DefaultUnit"
    by (rule mp)
  from a b c d e show ?thesis by blast
qed

text \<open>
  The claim as the specification words it has every invalid mode or unit rejected with
  a client-fault error, on POST too: the plain-text request with mode \<open>hover\<close> and
  unit \<open>yards\<close> is routed by car in kilometers and answered with the route.
\<close>

theorem post_invalid_mode_not_rejected_counterexample:
  "\<not> ModeIsValid (ToLower ''hover'') \<and> \<not> UnitIsValid (ToLower ''yards'')
   \<and> responseText (fst (HandleRoute tripEnv hoverPost noCalls)) =
       Some (''10min'' @ [newline] @ ''3.2km'' @ [newline] @ ''1'' @ [newline] @ ''Drive'' @
             [newline] @ ''Drive north'' @ [newline])
   \<and> map vq_Costing (valhallaLog (snd (HandleRoute tripEnv hoverPost noCalls))) = [''auto'']"
  by code_simp

end
